theory Spec2Isabelle
  imports Complex_Main "HOL-Library.Char_ord"
begin

section \<open>Python strings\<close>

text \<open>
  Source text is modelled as \<open>string\<close> (a list of 8-bit characters): a file is the list of
  its lines as \<open>readlines()\<close> returns them. Text outside ASCII (the suggestion texts of the
  program are Chinese) is held as its UTF-8 bytes; the character classes below are those
  of ASCII, so the model follows the program on ASCII source text. The confidence values,
  Python floats, are modelled as reals.
\<close>

text \<open>\<open>s.startswith(p)\<close>\<close>

fun startswith :: "string \<Rightarrow> string \<Rightarrow> bool" where
  "startswith s [] = True"
| "startswith [] (p # ps) = False"
| "startswith (c # cs) (p # ps) = (c = p \<and> startswith cs ps)"

text \<open>\<open>p in s\<close> for two strings: \<open>p\<close> occurs in \<open>s\<close> as a contiguous run.\<close>

fun contains :: "string \<Rightarrow> string \<Rightarrow> bool" where
  "contains [] p = (p = [])"
| "contains (c # cs) p = (startswith (c # cs) p \<or> contains cs p)"

text \<open>
  White space as \<open>str.strip\<close> and the class \<^verbatim>\<open>\s\<close> see it in ASCII: space, tab, line
  feed, carriage return, vertical tab, form feed and the four separators 0x1C to 0x1F.
\<close>

definition is_space :: "char \<Rightarrow> bool" where
  "is_space c = (c \<in> set [CHR 0x20, CHR 0x09, CHR 0x0A, CHR 0x0D, CHR 0x0B, CHR 0x0C,
                            CHR 0x1C, CHR 0x1D, CHR 0x1E, CHR 0x1F])"

definition rstrip :: "string \<Rightarrow> string" where
  "rstrip s = rev (dropWhile is_space (rev s))"

definition strip :: "string \<Rightarrow> string" where
  "strip s = dropWhile is_space (rstrip s)"

text \<open>\<open>s.count(c)\<close> for a single character \<open>c\<close>.\<close>

definition count_char :: "string \<Rightarrow> char \<Rightarrow> int" where
  "count_char s c = int (count_list s c)"

text \<open>\<open>s.split(c)\<close> for a single character \<open>c\<close>: the result is never empty.\<close>

fun split :: "char \<Rightarrow> string \<Rightarrow> string list" where
  "split c [] = [[]]"
| "split c (x # xs) =
     (if x = c then [] # split c xs
      else (case split c xs of
              w # ws \<Rightarrow> (x # w) # ws
            | [] \<Rightarrow> [[x]]))"



section \<open>Regular expressions (the fragment of Python's \<open>re\<close> that the program uses)\<close>

text \<open>
  Characters are compared by their codes (the order of \<open>HOL-Library.Char_ord\<close>).
  \<open>lower\<close> and \<open>upper\<close> change the case of an ASCII letter: bit 5 of the code is the
  difference between \<open>A\<close> (0x41) and \<open>a\<close> (0x61).
\<close>

definition in_range :: "char \<Rightarrow> char \<Rightarrow> char \<Rightarrow> bool" where
  "in_range lo hi c = (lo \<le> c \<and> c \<le> hi)"

definition is_digit :: "char \<Rightarrow> bool" where
  "is_digit c = in_range CHR ''0'' CHR ''9'' c"

definition is_word :: "char \<Rightarrow> bool" where
  "is_word c = (in_range CHR ''a'' CHR ''z'' c \<or> in_range CHR ''A'' CHR ''Z'' c \<or>
                is_digit c \<or> c = CHR ''_'')"

fun lower :: "char \<Rightarrow> char" where
  "lower (Char b0 b1 b2 b3 b4 b5 b6 b7) =
     (if in_range CHR ''A'' CHR ''Z'' (Char b0 b1 b2 b3 b4 b5 b6 b7)
      then Char b0 b1 b2 b3 b4 True b6 b7 else Char b0 b1 b2 b3 b4 b5 b6 b7)"

fun upper :: "char \<Rightarrow> char" where
  "upper (Char b0 b1 b2 b3 b4 b5 b6 b7) =
     (if in_range CHR ''a'' CHR ''z'' (Char b0 b1 b2 b3 b4 b5 b6 b7)
      then Char b0 b1 b2 b3 b4 False b6 b7 else Char b0 b1 b2 b3 b4 b5 b6 b7)"

text \<open>
  The members of a bracket expression: a character, a range \<^verbatim>\<open>a-z\<close>, or one of the
  classes \<^verbatim>\<open>\w\<close>, \<^verbatim>\<open>\s\<close>, \<^verbatim>\<open>\d\<close>.
\<close>

datatype cset = Ch char | Rng char char | CWord | CSpace | CDigit

text \<open>
  What consumes exactly one character: a literal, the dot (any character but a line
  feed), a bracket expression \<^verbatim>\<open>[...]\<close> or a negated one \<^verbatim>\<open>[^...]\<close>.
\<close>

datatype atom = Lit char | Dot | In "cset list" | NotIn "cset list"

text \<open>
  The patterns. Every \<^verbatim>\<open>*\<close> and \<^verbatim>\<open>+\<close> of the program stands behind a
  one-character item, so \<open>Star\<close> and \<open>Plus\<close> take an atom; both are greedy. \<open>Group n r\<close>
  is the \<open>n\<close>-th capturing group, \<open>Bol\<close> is \<^verbatim>\<open>^\<close>, \<open>Eol\<close> is \<^verbatim>\<open>$\<close>, \<open>WordB\<close> is
  \<^verbatim>\<open>\b\<close>.
\<close>

datatype regex = Eps | Atom atom | Star atom | Plus atom | Seq regex regex | Alt regex regex
  | Group nat regex | Bol | Eol | WordB

fun cset_has :: "cset \<Rightarrow> char \<Rightarrow> bool" where
  "cset_has (Ch x) c = (c = x)"
| "cset_has (Rng lo hi) c = in_range lo hi c"
| "cset_has CWord c = is_word c"
| "cset_has CSpace c = is_space c"
| "cset_has CDigit c = is_digit c"

text \<open>
  Membership in a bracket expression. Under \<open>re.IGNORECASE\<close> (the flag \<open>ic\<close>) a
  character belongs to it when one of its two cases does.
\<close>

definition in_class :: "bool \<Rightarrow> cset list \<Rightarrow> char \<Rightarrow> bool" where
  "in_class ic cs c =
     (if ic then list_ex (\<lambda>x. cset_has x (lower c) \<or> cset_has x (upper c)) cs
      else list_ex (\<lambda>x. cset_has x c) cs)"

fun atom_ok :: "bool \<Rightarrow> atom \<Rightarrow> char \<Rightarrow> bool" where
  "atom_ok ic (Lit x) c = (if ic then lower c = lower x else c = x)"
| "atom_ok ic Dot c = (c \<noteq> CHR 0x0A)"
| "atom_ok ic (In cs) c = in_class ic cs c"
| "atom_ok ic (NotIn cs) c = (\<not> in_class ic cs c)"

text \<open>
  The matcher is the backtracking search of \<open>re\<close>. It works on a stack of what is left
  to match: a pattern, or the end of a capturing group together with the input as it was
  where the group began. Its state is the character before the position (\<open>None\<close> at the
  start of the string, for \<^verbatim>\<open>^\<close> and \<^verbatim>\<open>\b\<close>), the rest of the input, and the groups
  captured so far, the latest first. It returns the input left after the first match in
  the order of preference (an alternative's left branch first, a repetition as long as
  possible first), or \<open>None\<close>.
\<close>

datatype item = M regex | Close nat string

type_synonym groups = "(nat \<times> string) list"

fun weight :: "regex \<Rightarrow> nat" where
  "weight (Plus a) = 3"
| "weight (Seq a b) = Suc (weight a + weight b)"
| "weight (Alt a b) = Suc (weight a + weight b)"
| "weight (Group n r) = Suc (Suc (weight r))"
| "weight r = 1"

fun item_weight :: "item \<Rightarrow> nat" where
  "item_weight (M r) = weight r"
| "item_weight (Close n s) = 1"

function (sequential) run ::
  "bool \<Rightarrow> item list \<Rightarrow> char option \<Rightarrow> string \<Rightarrow> groups \<Rightarrow> (string \<times> groups) option" where
  "run ic [] p s g = Some (s, g)"
| "run ic (Close n start # k) p s g =
     run ic k p s ((n, take (length start - length s) start) # g)"
| "run ic (M Eps # k) p s g = run ic k p s g"
| "run ic (M (Atom a) # k) p [] g = None"
| "run ic (M (Atom a) # k) p (c # cs) g =
     (if atom_ok ic a c then run ic k (Some c) cs g else None)"
| "run ic (M (Star a) # k) p [] g = run ic k p [] g"
| "run ic (M (Star a) # k) p (c # cs) g =
     (if atom_ok ic a c
      then (case run ic (M (Star a) # k) (Some c) cs g of
              Some r \<Rightarrow> Some r
            | None \<Rightarrow> run ic k p (c # cs) g)
      else run ic k p (c # cs) g)"
| "run ic (M (Plus a) # k) p s g = run ic (M (Atom a) # M (Star a) # k) p s g"
| "run ic (M (Seq a b) # k) p s g = run ic (M a # M b # k) p s g"
| "run ic (M (Alt a b) # k) p s g =
     (case run ic (M a # k) p s g of
        Some r \<Rightarrow> Some r
      | None \<Rightarrow> run ic (M b # k) p s g)"
| "run ic (M (Group n r) # k) p s g = run ic (M r # Close n s # k) p s g"
| "run ic (M Bol # k) p s g = (if p = None then run ic k p s g else None)"
| "run ic (M Eol # k) p s g =
     (if s = [] \<or> s = [CHR 0x0A] then run ic k p s g else None)"
| "run ic (M WordB # k) p s g =
     (if (case p of None \<Rightarrow> False | Some c \<Rightarrow> is_word c)
         \<noteq> (case s of [] \<Rightarrow> False | c # cs \<Rightarrow> is_word c)
      then run ic k p s g else None)"
  by pat_completeness auto
termination
  by (relation "measures [\<lambda>(ic, k, p, s, g). length s,
                          \<lambda>(ic, k, p, s, g). sum_list (map item_weight k)]") simp_all

text \<open>
  \<open>re.search\<close>: the match at the leftmost position that has one. The result is the input
  from the start of the match on, the input left after it, and the groups.
\<close>

fun search_from ::
  "bool \<Rightarrow> regex \<Rightarrow> char option \<Rightarrow> string \<Rightarrow> (string \<times> string \<times> groups) option" where
  "search_from ic r p [] =
     (case run ic [M r] p [] [] of Some (rest, g) \<Rightarrow> Some ([], rest, g) | None \<Rightarrow> None)"
| "search_from ic r p (c # cs) =
     (case run ic [M r] p (c # cs) [] of
        Some (rest, g) \<Rightarrow> Some (c # cs, rest, g)
      | None \<Rightarrow> search_from ic r (Some c) cs)"

definition re_search :: "bool \<Rightarrow> regex \<Rightarrow> string \<Rightarrow> groups option" where
  "re_search ic r s = map_option (\<lambda>(start, rest, g). g) (search_from ic r None s)"

text \<open>\<open>re.match\<close>: a match at the start of the string only.\<close>

definition re_match :: "bool \<Rightarrow> regex \<Rightarrow> string \<Rightarrow> groups option" where
  "re_match ic r s = map_option snd (run ic [M r] None s [])"

text \<open>\<open>bool(re.search(...))\<close>, the form most tests of the program have.\<close>

definition matches :: "bool \<Rightarrow> regex \<Rightarrow> string \<Rightarrow> bool" where
  "matches ic r s = (re_search ic r s \<noteq> None)"

text \<open>
  \<open>m.group(n)\<close>: the text the group matched last. A group that took no part in the match
  has no entry (Python's \<open>None\<close>).
\<close>

definition group :: "groups \<Rightarrow> nat \<Rightarrow> string option" where
  "group g n = map_of g n"

text \<open>
  \<open>re.finditer\<close>: the matches from left to right, none overlapping another; \<open>skip\<close>
  counts the characters of the last match that are still to be passed. (An empty match
  moves on by one character; no pattern used with it in the program matches the empty
  string.)
\<close>

fun finditer :: "bool \<Rightarrow> regex \<Rightarrow> char option \<Rightarrow> string \<Rightarrow> nat \<Rightarrow> (string \<times> groups) list" where
  "finditer ic r p [] skip =
     (if skip > 0 then []
      else case run ic [M r] p [] [] of Some (rest, g) \<Rightarrow> [([], g)] | None \<Rightarrow> [])"
| "finditer ic r p (c # cs) skip =
     (if skip > 0 then finditer ic r (Some c) cs (skip - 1)
      else case run ic [M r] p (c # cs) [] of
             Some (rest, g) \<Rightarrow>
               (take (length (c # cs) - length rest) (c # cs), g) #
               finditer ic r (Some c) cs (length cs - length rest)
           | None \<Rightarrow> finditer ic r (Some c) cs 0)"

text \<open>\<open>re.findall\<close> for a pattern with one group: the text of group 1 of every match.\<close>

definition findall1 :: "bool \<Rightarrow> regex \<Rightarrow> string \<Rightarrow> string list" where
  "findall1 ic r s =
     map (\<lambda>(text, g). case group g 1 of Some t \<Rightarrow> t | None \<Rightarrow> []) (finditer ic r None s 0)"


text \<open>\<open>re.sub(pattern, '', s)\<close>: the text with every match removed.\<close>

fun sub_empty :: "bool \<Rightarrow> regex \<Rightarrow> char option \<Rightarrow> string \<Rightarrow> nat \<Rightarrow> string" where
  "sub_empty ic r p [] skip = []"
| "sub_empty ic r p (c # cs) skip =
     (if skip > 0 then sub_empty ic r (Some c) cs (skip - 1)
      else case run ic [M r] p (c # cs) [] of
             Some (rest, g) \<Rightarrow>
               (if length rest = length (c # cs) then c # sub_empty ic r (Some c) cs 0
                else sub_empty ic r (Some c) cs (length cs - length rest))
           | None \<Rightarrow> c # sub_empty ic r (Some c) cs 0)"

text \<open>Writing patterns: a literal string, a sequence, a choice, an optional part.\<close>

definition lit :: "string \<Rightarrow> regex" where
  "lit s = foldr (\<lambda>c r. Seq (Atom (Lit c)) r) s Eps"

definition seq :: "regex list \<Rightarrow> regex" where
  "seq rs = foldr Seq rs Eps"

fun alts :: "regex list \<Rightarrow> regex" where
  "alts [] = Eps"
| "alts [r] = r"
| "alts (r # rs) = Alt r (alts rs)"

definition opt :: "regex \<Rightarrow> regex" where
  "opt r = Alt r Eps"

abbreviation ws :: atom where "ws \<equiv> In [CSpace]"
abbreviation wordc :: atom where "wordc \<equiv> In [CWord]"
abbreviation chr :: "char \<Rightarrow> regex" where "chr c \<equiv> Atom (Lit c)"

section \<open>Data model\<close>

text \<open>
  \<open>CodeIssue\<close> of \<open>code_smell_detector.py\<close>. The fields \<open>message\<close> and \<open>suggestion\<close> of the
  source hold display text that is formatted from the other values and that no decision of
  the program reads; the record leaves them out.
\<close>

record CodeIssue =
  type :: string
  severity :: string
  line_number :: int
  line_content :: string
  code_snippet :: "string list"

text \<open>\<open>CodeFeatures\<close> of \<open>feature_extractor.py\<close>, the 23 fields in the order of the source.\<close>

record CodeFeatures =
  lines_of_code :: int
  cyclomatic_complexity :: int
  number_of_classes :: int
  number_of_functions :: int
  number_of_methods :: int
  number_of_variables :: int
  avg_method_complexity :: real
  max_method_complexity :: int
  avg_method_parameters :: real
  max_method_parameters :: int
  avg_method_length :: real
  max_method_length :: int
  avg_class_methods :: real
  max_class_methods :: int
  avg_class_properties :: real
  max_class_properties :: int
  inheritance_depth :: int
  long_method_count :: int
  long_class_count :: int
  large_parameter_list_count :: int
  complex_method_count :: int
  naming_convention_violations :: int
  comment_ratio :: real

text \<open>
  The dictionaries that \<open>_detect_specific_issues\<close> builds from the features: the keys
  \<open>type\<close>, \<open>severity\<close> and \<open>metric\<close> (the keys \<open>message\<close> and \<open>details\<close> are display text).
\<close>

record FeatureIssue =
  d_type :: string
  d_severity :: string
  d_metric :: real

record SmellDetectionResult =
  file_path :: string
  smell_type :: string
  confidence :: real
  features :: CodeFeatures
  issues :: "FeatureIssue list"
  suggestions :: "string list"
  detailed_issues :: "CodeIssue list"

text \<open>The exceptions that the modelled functions raise or catch.\<close>

datatype py_error = FileNotFoundError | NotADirectoryError | IsADirectoryError | PermissionError
  | OSError | ValueError | UnicodeDecodeError | TimeoutExpired | CalledProcessError
  | JSONDecodeError

section \<open>The rule catalog (\<open>CodeSmellDetector._detect_detailed_issues\<close>)\<close>

text \<open>
  Every detector takes the lines of the file and returns its issues in line order. A
  \<open>for i, line in enumerate(lines)\<close> loop is the concatenation, over the numbered lines,
  of what its body appends for one line.
\<close>

abbreviation letter_or_underscore :: atom where
  "letter_or_underscore \<equiv> In [Rng CHR ''a'' CHR ''z'', Rng CHR ''A'' CHR ''Z'', Ch CHR ''_'']"

abbreviation identifier_char :: atom where
  "identifier_char \<equiv>
     In [Rng CHR ''a'' CHR ''z'', Rng CHR ''A'' CHR ''Z'', Rng CHR ''0'' CHR ''9'', Ch CHR ''_'']"

abbreviation alnum :: atom where
  "alnum \<equiv> In [Rng CHR ''a'' CHR ''z'', Rng CHR ''A'' CHR ''Z'', Rng CHR ''0'' CHR ''9'']"

subsection \<open>\<open>_find_long_methods\<close>\<close>

text \<open>\<^verbatim>\<open>function\s+([a-zA-Z_][a-zA-Z0-9_]*)\s*\(([^)]*)\)\<close>\<close>

definition re_method_signature :: regex where
  "re_method_signature =
     seq [lit ''function'', Plus ws, Group 1 (seq [Atom letter_or_underscore, Star identifier_char]),
          Star ws, chr CHR ''('', Group 2 (Star (NotIn [Ch CHR '')''])), chr CHR '')'']"

text \<open>\<^verbatim>\<open>\).*$\<close>\<close>

definition re_after_paren :: regex where
  "re_after_paren = seq [chr CHR '')'', Star Dot, Eol]"

text \<open>
  The loop that looks for the line on which the braces of the method balance: \<open>Some j\<close>
  when it breaks at line \<open>j\<close>, \<open>None\<close> when it runs to the end of the file.
\<close>

fun method_end_loop :: "string list \<Rightarrow> nat \<Rightarrow> int \<Rightarrow> bool \<Rightarrow> nat option" where
  "method_end_loop [] j brace_count found_start_brace = None"
| "method_end_loop (current_line # rest) j brace_count found_start_brace =
     (let brace_count = brace_count + count_char current_line CHR ''{''
                                    - count_char current_line CHR ''}'';
          found_start_brace = (found_start_brace \<or> brace_count > 0)
      in if found_start_brace \<and> brace_count = 0 then Some j
         else method_end_loop rest (Suc j) brace_count found_start_brace)"

text \<open>The loop that appends the following lines to the parameters until one holds \<open>)\<close>.\<close>

fun extend_params :: "string \<Rightarrow> string list \<Rightarrow> string" where
  "extend_params full_params [] = full_params"
| "extend_params full_params (l # rest) =
     (let full_params = full_params @ '' '' @ strip l
      in if CHR '')'' \<in> set l then full_params else extend_params full_params rest)"

definition long_methods_at :: "string list \<Rightarrow> nat \<Rightarrow> string \<Rightarrow> CodeIssue list" where
  "long_methods_at lines i line =
     (let stripped = strip line in
      case re_search True re_method_signature stripped of
        None \<Rightarrow> []
      | Some g \<Rightarrow>
          (let params_str = (case group g 2 of Some t \<Rightarrow> t | None \<Rightarrow> []);
               method_start = i;
               method_end = (case method_end_loop (drop i lines) i 0 False of
                               Some j \<Rightarrow> j | None \<Rightarrow> i);
               method_length = int method_end - int method_start + 1;
               method_signature =
                 (if CHR '')'' \<notin> set stripped \<and> i + 1 < length lines
                  then stripped @ '' '' @ strip (lines ! (i + 1)) else stripped)
           in (if method_length > 20
               then [\<lparr>type = ''long_method'', severity = ''warning'',
                      line_number = int method_start + 1, line_content = method_signature,
                      code_snippet = map rstrip (take 10 (drop method_start lines))\<rparr>]
               else []) @
              (if strip params_str \<noteq> []
               then (let full_params =
                           (if CHR '')'' \<notin> set line \<and> i + 1 < length lines
                            then extend_params params_str (take 9 (drop (i + 1) lines))
                            else params_str);
                         full_params = sub_empty True re_after_paren None full_params 0;
                         param_list = filter (\<lambda>p. p \<noteq> [])
                                        (map strip (split CHR '','' full_params))
                     in if length param_list > 4
                        then [\<lparr>type = ''long_parameter_list'', severity = ''warning'',
                               line_number = int method_start + 1,
                               line_content = method_signature,
                               code_snippet = [method_signature]\<rparr>]
                        else [])
               else [])))"

definition find_long_methods :: "string list \<Rightarrow> CodeIssue list" where
  "find_long_methods lines =
     concat (map (\<lambda>(i, line). long_methods_at lines i line) (enumerate 0 lines))"

subsection \<open>\<open>_find_complex_methods\<close>\<close>

text \<open>\<^verbatim>\<open>function\s+(\w+)\s*\(\<close>\<close>

definition re_function_open :: regex where
  "re_function_open =
     seq [lit ''function'', Plus ws, Group 1 (Plus wordc), Star ws, chr CHR ''('']"

text \<open>\<^verbatim>\<open>\b(if|for|foreach|while|switch)\b\<close>\<close>

definition re_control :: regex where
  "re_control =
     seq [WordB,
          Group 1 (alts [lit ''if'', lit ''for'', lit ''foreach'', lit ''while'', lit ''switch'']),
          WordB]"

text \<open>
  The variables the loop carries from line to line (\<open>method_name\<close> only feeds the message
  text and is left out).
\<close>

record nesting_state =
  in_method :: bool
  method_start :: nat
  max_nesting :: int
  current_nesting :: int

text \<open>The loop body for one line: the state and the issues after it.\<close>

definition complex_step ::
  "string list \<Rightarrow> nesting_state \<times> CodeIssue list \<Rightarrow> nat \<times> string \<Rightarrow>
   nesting_state \<times> CodeIssue list" where
  "complex_step lines acc numbered =
     (let (st, found) = acc;
          (i, line) = numbered;
          stripped = strip line;
          st = (if matches True re_function_open stripped \<and> \<not> in_method st
                then \<lparr>in_method = True, method_start = i, max_nesting = 0,
                      current_nesting = 0\<rparr>
                else st)
      in if in_method st
         then (let st = (if matches True re_control stripped
                         then st\<lparr>current_nesting := current_nesting st + 1,
                                 max_nesting := max (max_nesting st) (current_nesting st + 1)\<rparr>
                         else st);
                   st = (if startswith stripped ''}''
                         then st\<lparr>current_nesting := max 0 (current_nesting st - 1)\<rparr>
                         else st)
               in if startswith stripped ''}'' \<and> current_nesting st = 0
                  then (st\<lparr>in_method := False\<rparr>,
                        found @
                        (if max_nesting st > 4
                         then [\<lparr>type = ''complex_method'', severity = ''error'',
                                line_number = int (method_start st) + 1,
                                line_content = strip (lines ! method_start st),
                                code_snippet =
                                  map rstrip (take 10 (drop (method_start st) lines))\<rparr>]
                         else []))
                  else (st, found))
         else (st, found))"

definition find_complex_methods :: "string list \<Rightarrow> CodeIssue list" where
  "find_complex_methods lines =
     snd (foldl (complex_step lines)
            (\<lparr>in_method = False, method_start = 0, max_nesting = 0, current_nesting = 0\<rparr>, [])
            (enumerate 0 lines))"

subsection \<open>\<open>_find_long_parameter_lists\<close>\<close>

text \<open>\<^verbatim>\<open>function\s+(\w+)\s*\(([^)]*)\)\<close>, searched in the line as it is.\<close>

definition re_function_params :: regex where
  "re_function_params =
     seq [lit ''function'', Plus ws, Group 1 (Plus wordc), Star ws, chr CHR ''('',
          Group 2 (Star (NotIn [Ch CHR '')''])), chr CHR '')'']"

definition long_parameter_lists_at :: "nat \<Rightarrow> string \<Rightarrow> CodeIssue list" where
  "long_parameter_lists_at i line =
     (case re_search True re_function_params line of
        None \<Rightarrow> []
      | Some g \<Rightarrow>
          (let params_str = (case group g 2 of Some t \<Rightarrow> t | None \<Rightarrow> [])
           in if strip params_str \<noteq> []
              then (let params = filter (\<lambda>p. p \<noteq> [])
                                   (map strip (split CHR '','' params_str));
                        param_count = length params
                    in if param_count > 5
                       then [\<lparr>type = ''long_parameter_list'', severity = ''warning'',
                              line_number = int i + 1, line_content = strip line,
                              code_snippet = [strip line]\<rparr>]
                       else [])
              else []))"

definition find_long_parameter_lists :: "string list \<Rightarrow> CodeIssue list" where
  "find_long_parameter_lists lines =
     concat (map (\<lambda>(i, line). long_parameter_lists_at i line) (enumerate 0 lines))"

subsection \<open>\<open>_find_naming_issues\<close>\<close>

text \<open>\<^verbatim>\<open>class\s+(\w+)\<close>\<close>

definition re_class_name :: regex where
  "re_class_name = seq [lit ''class'', Plus ws, Group 1 (Plus wordc)]"

text \<open>\<^verbatim>\<open>^[A-Z][a-zA-Z0-9]*$\<close>\<close>

definition re_pascal_case :: regex where
  "re_pascal_case = seq [Bol, Atom (In [Rng CHR ''A'' CHR ''Z'']), Star alnum, Eol]"

text \<open>\<^verbatim>\<open>function\s+([a-zA-Z_][a-zA-Z0-9_]*)\<close>\<close>

definition re_function_name :: regex where
  "re_function_name =
     seq [lit ''function'', Plus ws, Group 1 (seq [Atom letter_or_underscore, Star identifier_char])]"

text \<open>\<^verbatim>\<open>^[a-z][a-zA-Z0-9]*$\<close>\<close>

definition re_camel_case :: regex where
  "re_camel_case = seq [Bol, Atom (In [Rng CHR ''a'' CHR ''z'']), Star alnum, Eol]"

text \<open>\<^verbatim>\<open>\$([A-Z_][A-Z0-9_]*)\<close>\<close>

definition re_upper_variable :: regex where
  "re_upper_variable =
     seq [chr CHR ''$'',
          Group 1 (seq [Atom (In [Rng CHR ''A'' CHR ''Z'', Ch CHR ''_'']),
                        Star (In [Rng CHR ''A'' CHR ''Z'', Rng CHR ''0'' CHR ''9'', Ch CHR ''_''])])]"

text \<open>The names the source excludes as super-globals.\<close>

definition superglobal_names :: "string list" where
  "superglobal_names =
     [''GLOBALS'', ''POST'', ''GET'', ''SESSION'', ''COOKIE'', ''SERVER'', ''FILES'', ''ENV'']"

definition naming_issue :: "nat \<Rightarrow> string \<Rightarrow> CodeIssue" where
  "naming_issue i stripped =
     \<lparr>type = ''naming_violation'', severity = ''info'', line_number = int i + 1,
      line_content = stripped, code_snippet = [stripped]\<rparr>"

definition naming_issues_at :: "nat \<Rightarrow> string \<Rightarrow> CodeIssue list" where
  "naming_issues_at i line =
     (let stripped = strip line in
      (case re_search True re_class_name stripped of
         None \<Rightarrow> []
       | Some g \<Rightarrow>
           (let class_name = (case group g 1 of Some t \<Rightarrow> t | None \<Rightarrow> [])
            in if re_match False re_pascal_case class_name = None
               then [naming_issue i stripped] else [])) @
      (case re_search True re_function_name stripped of
         None \<Rightarrow> []
       | Some g \<Rightarrow>
           (let method_name = (case group g 1 of Some t \<Rightarrow> t | None \<Rightarrow> [])
            in if \<not> startswith method_name ''__'' \<and>
                  re_match False re_camel_case method_name = None
               then [naming_issue i stripped] else [])) @
      concat (map (\<lambda>var_name. if var_name \<notin> set superglobal_names
                                then [naming_issue i stripped] else [])
                (findall1 False re_upper_variable line)))"

definition find_naming_issues :: "string list \<Rightarrow> CodeIssue list" where
  "find_naming_issues lines =
     concat (map (\<lambda>(i, line). naming_issues_at i line) (enumerate 0 lines))"

subsection \<open>\<open>_find_uncommented_methods\<close>\<close>

text \<open>\<^verbatim>\<open>(public|private|protected)\s+function\s+(\w+)\<close>\<close>

definition re_visible_function :: regex where
  "re_visible_function =
     seq [Group 1 (alts [lit ''public'', lit ''private'', lit ''protected'']), Plus ws,
          lit ''function'', Plus ws, Group 2 (Plus wordc)]"

text \<open>The lines \<open>lines[max(0, i - 3):i]\<close>: up to three lines before line \<open>i\<close>.\<close>

definition three_before :: "string list \<Rightarrow> nat \<Rightarrow> string list" where
  "three_before lines i = drop (i - 3) (take i lines)"

definition uncommented_methods_at :: "string list \<Rightarrow> nat \<Rightarrow> string \<Rightarrow> CodeIssue list" where
  "uncommented_methods_at lines i line =
     (if matches True re_visible_function line
      then (let has_comment =
                  list_ex (\<lambda>l. contains l ''//'' \<or> contains l ''/*'' \<or> contains l ''*'')
                    (three_before lines i)
            in if \<not> has_comment
               then [\<lparr>type = ''missing_documentation'', severity = ''info'',
                      line_number = int i + 1, line_content = strip line,
                      code_snippet = [strip line]\<rparr>]
               else [])
      else [])"

definition find_uncommented_methods :: "string list \<Rightarrow> CodeIssue list" where
  "find_uncommented_methods lines =
     concat (map (\<lambda>(i, line). uncommented_methods_at lines i line) (enumerate 0 lines))"

subsection \<open>\<open>_find_sql_injection_risks\<close>\<close>

text \<open>
  The four patterns of \<open>sql_patterns\<close>, in order:
  \<^verbatim>\<open>(SELECT|INSERT|UPDATE|DELETE).*\$\w+\<close>,
  \<^verbatim>\<open>(SELECT|INSERT|UPDATE|DELETE).*\.\s*\$\<close>,
  \<^verbatim>\<open>(SELECT|INSERT|UPDATE|DELETE).*".*\$.*"\<close> and
  \<^verbatim>\<open>(SELECT|INSERT|UPDATE|DELETE).*'.*\$.*'\<close>.
\<close>

definition sql_verb :: regex where
  "sql_verb = Group 1 (alts [lit ''SELECT'', lit ''INSERT'', lit ''UPDATE'', lit ''DELETE''])"

definition sql_patterns :: "regex list" where
  "sql_patterns =
     [seq [sql_verb, Star Dot, chr CHR ''$'', Plus wordc],
      seq [sql_verb, Star Dot, chr CHR ''.'', Star ws, chr CHR ''$''],
      seq [sql_verb, Star Dot, chr CHR 0x22, Star Dot, chr CHR ''$'', Star Dot, chr CHR 0x22],
      seq [sql_verb, Star Dot, chr CHR 0x27, Star Dot, chr CHR ''$'', Star Dot, chr CHR 0x27]]"

text \<open>\<^verbatim>\<open>(prepare|PDO::PARAM|bindParam|bindValue|\?)\<close>\<close>

definition re_prepared :: regex where
  "re_prepared =
     Group 1 (alts [lit ''prepare'', lit ''PDO::PARAM'', lit ''bindParam'', lit ''bindValue'',
                    chr CHR ''?''])"

text \<open>
  The inner loop \<open>for pattern in sql_patterns\<close> for one line: the issue is appended for
  the first pattern that is found while no prepared-statement marker is, and the loop
  breaks there.
\<close>

fun sql_pattern_loop :: "regex list \<Rightarrow> string list \<Rightarrow> nat \<Rightarrow> string \<Rightarrow> CodeIssue list" where
  "sql_pattern_loop [] lines i stripped = []"
| "sql_pattern_loop (pattern # rest) lines i stripped =
     (if matches True pattern stripped \<and> \<not> matches True re_prepared stripped
      then [\<lparr>type = ''sql_injection_risk'', severity = ''error'', line_number = int i + 1,
             line_content = stripped,
             code_snippet = map rstrip (drop (i - 2) (take (i + 3) lines))\<rparr>]
      else sql_pattern_loop rest lines i stripped)"

definition find_sql_injection_risks :: "string list \<Rightarrow> CodeIssue list" where
  "find_sql_injection_risks lines =
     concat (map (\<lambda>(i, line). sql_pattern_loop sql_patterns lines i (strip line))
               (enumerate 0 lines))"

subsection \<open>\<open>_find_security_issues\<close>\<close>

text \<open>\<^verbatim>\<open>\$_(GET|POST|REQUEST|COOKIE)\[\<close>\<close>

definition re_user_input :: regex where
  "re_user_input =
     seq [lit ''$_'', Group 1 (alts [lit ''GET'', lit ''POST'', lit ''REQUEST'', lit ''COOKIE'']),
          chr CHR ''['']"

text \<open>\<^verbatim>\<open>(filter_|htmlspecialchars|strip_tags|mysqli_real_escape_string)\<close>\<close>

definition re_sanitized :: regex where
  "re_sanitized =
     Group 1 (alts [lit ''filter_'', lit ''htmlspecialchars'', lit ''strip_tags'',
                    lit ''mysqli_real_escape_string''])"

text \<open>\<^verbatim>\<open>\$.*password.*=.*\$.*password\<close>\<close>

definition re_password_assignment :: regex where
  "re_password_assignment =
     seq [chr CHR ''$'', Star Dot, lit ''password'', Star Dot, chr CHR ''='', Star Dot,
          chr CHR ''$'', Star Dot, lit ''password'']"

text \<open>\<^verbatim>\<open>(password_hash|hash|crypt|bcrypt)\<close>\<close>

definition re_hashed :: regex where
  "re_hashed = Group 1 (alts [lit ''password_hash'', lit ''hash'', lit ''crypt'', lit ''bcrypt''])"

text \<open>\<^verbatim>\<open>new\s+PDO\(.*localhost.*root.*['"][0-9]+['"]\<close>\<close>

definition re_hardcoded_connection :: regex where
  "re_hardcoded_connection =
     seq [lit ''new'', Plus ws, lit ''PDO('', Star Dot, lit ''localhost'', Star Dot, lit ''root'',
          Star Dot, Atom (In [Ch CHR 0x27, Ch CHR 0x22]), Plus (In [Rng CHR ''0'' CHR ''9'']),
          Atom (In [Ch CHR 0x27, Ch CHR 0x22])]"

text \<open>\<^verbatim>\<open>(->query\(|->exec\(|mail\()\<close>\<close>

definition re_fallible_call :: regex where
  "re_fallible_call = Group 1 (alts [lit ''->query('', lit ''->exec('', lit ''mail(''])"

text \<open>\<^verbatim>\<open>(try|catch|if.*false|error)\<close>\<close>

definition re_error_handling :: regex where
  "re_error_handling =
     Group 1 (alts [lit ''try'', lit ''catch'', seq [lit ''if'', Star Dot, lit ''false''],
                    lit ''error''])"

definition security_issues_at :: "string list \<Rightarrow> nat \<Rightarrow> string \<Rightarrow> CodeIssue list" where
  "security_issues_at lines i line =
     (let stripped = strip line in
      (if matches False re_user_input stripped \<and> \<not> matches False re_sanitized stripped
       then [\<lparr>type = ''xss_risk'', severity = ''error'', line_number = int i + 1,
              line_content = stripped, code_snippet = [stripped]\<rparr>]
       else []) @
      (if matches True re_password_assignment stripped \<and> \<not> matches True re_hashed stripped
       then [\<lparr>type = ''password_security'', severity = ''error'', line_number = int i + 1,
              line_content = stripped, code_snippet = [stripped]\<rparr>]
       else []) @
      (if matches False re_hardcoded_connection stripped
       then [\<lparr>type = ''hardcoded_credentials'', severity = ''warning'',
              line_number = int i + 1, line_content = stripped, code_snippet = [stripped]\<rparr>]
       else []) @
      (if matches False re_fallible_call stripped
       then (let has_error_handling =
                   list_ex (\<lambda>l. matches True re_error_handling l) (take 3 (drop i lines))
             in if \<not> has_error_handling
                then [\<lparr>type = ''missing_error_handling'', severity = ''warning'',
                       line_number = int i + 1, line_content = stripped,
                       code_snippet = [stripped]\<rparr>]
                else [])
       else []))"

definition find_security_issues :: "string list \<Rightarrow> CodeIssue list" where
  "find_security_issues lines =
     concat (map (\<lambda>(i, line). security_issues_at lines i line) (enumerate 0 lines))"

subsection \<open>\<open>_find_code_quality_issues\<close>\<close>

text \<open>\<^verbatim>\<open>^class\s+\w+\<close>\<close>

definition re_class_start :: regex where
  "re_class_start = seq [Bol, lit ''class'', Plus ws, Plus wordc]"

text \<open>\<^verbatim>\<open>(/\*|\*|//)\<close>\<close>

definition re_comment_mark :: regex where
  "re_comment_mark = Group 1 (alts [lit ''/*'', lit ''*'', lit ''//''])"

text \<open>\<^verbatim>\<open>public\s+\$\w+\<close>\<close>

definition re_public_property :: regex where
  "re_public_property = seq [lit ''public'', Plus ws, chr CHR ''$'', Plus wordc]"

text \<open>\<^verbatim>\<open>function\s+\w+\([^)]*\$\w+[^)]*\)\<close>\<close>

definition re_function_with_variable :: regex where
  "re_function_with_variable =
     seq [lit ''function'', Plus ws, Plus wordc, chr CHR ''('', Star (NotIn [Ch CHR '')'']),
          chr CHR ''$'', Plus wordc, Star (NotIn [Ch CHR '')'']), chr CHR '')'']"

text \<open>\<^verbatim>\<open>(int|string|bool|array|object|\w+\s+\$)\<close>\<close>

definition re_type_hint :: regex where
  "re_type_hint =
     Group 1 (alts [lit ''int'', lit ''string'', lit ''bool'', lit ''array'', lit ''object'',
                    seq [Plus wordc, Plus ws, chr CHR ''$'']])"

text \<open>\<^verbatim>\<open>^\s*function\s+\w+\<close>\<close>

definition re_bare_function :: regex where
  "re_bare_function = seq [Bol, Star ws, lit ''function'', Plus ws, Plus wordc]"

text \<open>\<^verbatim>\<open>(public|private|protected)\<close>\<close>

definition re_visibility :: regex where
  "re_visibility = Group 1 (alts [lit ''public'', lit ''private'', lit ''protected''])"

text \<open>\<^verbatim>\<open>^\$\w+\s*=\<close>\<close>

definition re_top_assignment :: regex where
  "re_top_assignment = seq [Bol, chr CHR ''$'', Plus wordc, Star ws, chr CHR ''='']"

definition code_quality_issues_at :: "string list \<Rightarrow> nat \<Rightarrow> string \<Rightarrow> CodeIssue list" where
  "code_quality_issues_at lines i line =
     (let stripped = strip line in
      (if matches False re_class_start stripped
       then (let has_comment =
                   list_ex (\<lambda>l. matches False re_comment_mark l) (three_before lines i)
             in if \<not> has_comment
                then [\<lparr>type = ''missing_class_comment'', severity = ''info'',
                       line_number = int i + 1, line_content = stripped,
                       code_snippet = [stripped]\<rparr>]
                else [])
       else []) @
      (if matches False re_public_property stripped
       then [\<lparr>type = ''public_property'', severity = ''warning'', line_number = int i + 1,
              line_content = stripped, code_snippet = [stripped]\<rparr>]
       else []) @
      (if matches False re_function_with_variable stripped \<and>
          \<not> matches False re_type_hint stripped
       then [\<lparr>type = ''missing_type_declaration'', severity = ''info'',
              line_number = int i + 1, line_content = stripped, code_snippet = [stripped]\<rparr>]
       else []) @
      (if matches False re_bare_function stripped \<and> \<not> matches False re_visibility stripped
       then [\<lparr>type = ''missing_access_modifier'', severity = ''warning'',
              line_number = int i + 1, line_content = stripped, code_snippet = [stripped]\<rparr>]
       else []) @
      (if matches False re_top_assignment stripped
       then [\<lparr>type = ''global_variable'', severity = ''warning'', line_number = int i + 1,
              line_content = stripped, code_snippet = [stripped]\<rparr>]
       else []))"

definition find_code_quality_issues :: "string list \<Rightarrow> CodeIssue list" where
  "find_code_quality_issues lines =
     concat (map (\<lambda>(i, line). code_quality_issues_at lines i line) (enumerate 0 lines))"

subsection \<open>\<open>_find_logic_errors\<close>\<close>

text \<open>\<^verbatim>\<open>while\s*\(\s*(true|1|TRUE)\s*\)\<close>\<close>

definition re_while_true :: regex where
  "re_while_true =
     seq [lit ''while'', Star ws, chr CHR ''('', Star ws,
          Group 1 (alts [lit ''true'', lit ''1'', lit ''TRUE'']), Star ws, chr CHR '')'']"

text \<open>\<^verbatim>\<open>for\s*\(\s*[^;]*;\s*[^;]*;\s*[^)]*\)\<close>\<close>

definition re_for_loop :: regex where
  "re_for_loop =
     seq [lit ''for'', Star ws, chr CHR ''('', Star ws, Star (NotIn [Ch CHR '';'']), chr CHR '';'',
          Star ws, Star (NotIn [Ch CHR '';'']), chr CHR '';'', Star ws,
          Star (NotIn [Ch CHR '')'']), chr CHR '')'']"

text \<open>\<^verbatim>\<open>for\s*\(\s*\$\w+\s*=\s*\d+\s*;\s*\$\w+\s*[<>]=?\s*\d+\s*;\s*\)\<close>\<close>

definition re_for_without_step :: regex where
  "re_for_without_step =
     seq [lit ''for'', Star ws, chr CHR ''('', Star ws, chr CHR ''$'', Plus wordc, Star ws,
          chr CHR ''='', Star ws, Plus (In [CDigit]), Star ws, chr CHR '';'', Star ws,
          chr CHR ''$'', Plus wordc, Star ws, Atom (In [Ch CHR ''<'', Ch CHR ''>'']),
          opt (chr CHR ''=''), Star ws, Plus (In [CDigit]), Star ws, chr CHR '';'', Star ws,
          chr CHR '')'']"

text \<open>\<^verbatim>\<open>function\s+(\w+)\<close>\<close>

definition re_function_word :: regex where
  "re_function_word = seq [lit ''function'', Plus ws, Group 1 (Plus wordc)]"

text \<open>\<^verbatim>\<open>(if|return|break|\$\w+\s*[<>]=?)\<close>\<close>

definition re_termination :: regex where
  "re_termination =
     Group 1 (alts [lit ''if'', lit ''return'', lit ''break'',
                    seq [chr CHR ''$'', Plus wordc, Star ws,
                         Atom (In [Ch CHR ''<'', Ch CHR ''>'']), opt (chr CHR ''='')]])"

text \<open>\<^verbatim>\<open>catch\s*\([^)]*\)\s*\{?\s*\}?\<close>\<close>

definition re_catch :: regex where
  "re_catch =
     seq [lit ''catch'', Star ws, chr CHR ''('', Star (NotIn [Ch CHR '')'']), chr CHR '')'',
          Star ws, opt (chr CHR ''{''), Star ws, opt (chr CHR ''}'')]"

text \<open>\<^verbatim>\<open>while\s*\([^)]*\)\<close>\<close>

definition re_while :: regex where
  "re_while =
     seq [lit ''while'', Star ws, chr CHR ''('', Star (NotIn [Ch CHR '')'']), chr CHR '')'']"

text \<open>\<^verbatim>\<open>/\s*\$\w+\<close>\<close>

definition re_division :: regex where
  "re_division = seq [chr CHR ''/'', Star ws, chr CHR ''$'', Plus wordc]"

text \<open>\<^verbatim>\<open>\$\w+\[\$\w+\]\<close>\<close>

definition re_variable_index :: regex where
  "re_variable_index =
     seq [chr CHR ''$'', Plus wordc, chr CHR ''['', chr CHR ''$'', Plus wordc, chr CHR '']'']"

text \<open>\<^verbatim>\<open>(fopen|file_get_contents|include|require)\(\<close>\<close>

definition re_file_operation :: regex where
  "re_file_operation =
     seq [Group 1 (alts [lit ''fopen'', lit ''file_get_contents'', lit ''include'',
                         lit ''require'']), chr CHR ''('']"

text \<open>\<^verbatim>\<open>(file_exists|is_readable|@)\<close>\<close>

definition re_file_check :: regex where
  "re_file_check = Group 1 (alts [lit ''file_exists'', lit ''is_readable'', lit ''@''])"

text \<open>
  The brace counting that the two look-ahead loops share: a line with \<open>{\<close> opens the
  body, and the braces of a line are counted once the body is open.
\<close>

definition brace_step :: "string \<Rightarrow> int \<times> bool \<Rightarrow> int \<times> bool" where
  "brace_step l st =
     (let (brace_count, found_opening_brace) = st
      in if CHR ''{'' \<in> set l
         then (brace_count + count_char l CHR ''{'' - count_char l CHR ''}'', True)
         else if found_opening_brace
         then (brace_count + count_char l CHR ''{'' - count_char l CHR ''}'', True)
         else (brace_count, False))"

text \<open>The look-ahead of the \<open>while(true)\<close> test: the value of \<open>has_break\<close> after it.\<close>

fun while_body_loop :: "string list \<Rightarrow> int \<times> bool \<Rightarrow> bool \<Rightarrow> bool" where
  "while_body_loop [] st has_break = has_break"
| "while_body_loop (l # rest) st has_break =
     (let loop_line = strip l;
          st = brace_step loop_line st;
          has_break = (has_break \<or> contains loop_line ''break'' \<or>
                       contains loop_line ''return'' \<or> contains loop_line ''exit'')
      in if snd st \<and> fst st = 0 then has_break
         else while_body_loop rest st has_break)"

text \<open>
  The look-ahead of the recursion test: \<open>has_self_call\<close> and \<open>has_termination\<close> after it.
\<close>

fun function_body_loop ::
  "string \<Rightarrow> string list \<Rightarrow> int \<times> bool \<Rightarrow> bool \<times> bool \<Rightarrow> bool \<times> bool" where
  "function_body_loop function_name [] st flags = flags"
| "function_body_loop function_name (l # rest) st flags =
     (let func_line = strip l;
          st = brace_step func_line st;
          (has_self_call, has_termination) = flags;
          has_self_call = (has_self_call \<or>
                           (snd st \<and> contains func_line (function_name @ ''('')));
          has_termination = (has_termination \<or> matches False re_termination func_line)
      in if snd st \<and> fst st = 0 then (has_self_call, has_termination)
         else function_body_loop function_name rest st (has_self_call, has_termination))"

text \<open>The first line of a list that passes a test, with its number.\<close>

fun first_line_where :: "(string \<Rightarrow> bool) \<Rightarrow> string list \<Rightarrow> nat \<Rightarrow> (nat \<times> string) option" where
  "first_line_where P [] j = None"
| "first_line_where P (l # rest) j =
     (if P l then Some (j, l) else first_line_where P rest (Suc j))"

text \<open>
  The loop body runs eight tests on a line, numbered as in the source; each is given here
  by what it appends.
\<close>

text \<open>1. A \<open>while(true)\<close> whose body shows no \<open>break\<close>, \<open>return\<close> or \<open>exit\<close>.\<close>

definition infinite_while_at :: "string list \<Rightarrow> nat \<Rightarrow> string \<Rightarrow> CodeIssue list" where
  "infinite_while_at lines i stripped =
     (if matches False re_while_true stripped \<and>
         \<not> while_body_loop (take 50 (drop i lines)) (0, False) False
      then [\<lparr>type = ''infinite_loop_risk'', severity = ''error'', line_number = int i + 1,
             line_content = stripped, code_snippet = [stripped]\<rparr>]
      else [])"

text \<open>2. A \<open>for\<close> loop with an empty third clause.\<close>

definition for_without_step_at :: "nat \<Rightarrow> string \<Rightarrow> CodeIssue list" where
  "for_without_step_at i stripped =
     (if matches False re_for_loop stripped \<and> matches False re_for_without_step stripped
      then [\<lparr>type = ''infinite_loop_risk'', severity = ''error'', line_number = int i + 1,
             line_content = stripped, code_snippet = [stripped]\<rparr>]
      else [])"

text \<open>3. A function that calls itself and shows no sign of a termination test.\<close>

definition infinite_recursion_at :: "string list \<Rightarrow> nat \<Rightarrow> string \<Rightarrow> CodeIssue list" where
  "infinite_recursion_at lines i stripped =
     (case re_search False re_function_word stripped of
        None \<Rightarrow> []
      | Some g \<Rightarrow>
          (let function_name = (case group g 1 of Some t \<Rightarrow> t | None \<Rightarrow> []);
               flags = function_body_loop function_name (take 100 (drop i lines)) (0, False)
                         (False, False);
               has_self_call = fst flags;
               has_termination = snd flags
           in if has_self_call \<and> \<not> has_termination
              then [\<lparr>type = ''infinite_recursion_risk'', severity = ''error'',
                     line_number = int i + 1, line_content = stripped,
                     code_snippet = [stripped]\<rparr>]
              else []))"

text \<open>4. A \<open>catch\<close> clause whose next line is a closing brace alone.\<close>

definition empty_catch_at :: "string list \<Rightarrow> nat \<Rightarrow> string \<Rightarrow> CodeIssue list" where
  "empty_catch_at lines i stripped =
     (if matches False re_catch stripped \<and> i + 1 < length lines \<and>
         strip (lines ! (i + 1)) = ''}''
      then [\<lparr>type = ''empty_catch_block'', severity = ''error'', line_number = int i + 1,
             line_content = stripped, code_snippet = [stripped]\<rparr>]
      else [])"

text \<open>5. An object created within the 19 lines after a \<open>while\<close>, with no \<open>unset\<close>.\<close>

definition memory_leak_at :: "string list \<Rightarrow> nat \<Rightarrow> string \<Rightarrow> CodeIssue list" where
  "memory_leak_at lines i stripped =
     (if matches False re_while stripped
      then (case first_line_where (\<lambda>l. contains l ''new '' \<and> \<not> contains l ''unset'')
                   (take 19 (drop (i + 1) lines)) (i + 1) of
              Some (j, l) \<Rightarrow>
                [\<lparr>type = ''memory_leak_risk'', severity = ''warning'', line_number = int j + 1,
                  line_content = strip l, code_snippet = [strip l]\<rparr>]
            | None \<Rightarrow> [])
      else [])"

text \<open>6. A division by a variable on a line without \<open>if\<close>.\<close>

definition division_by_zero_at :: "nat \<Rightarrow> string \<Rightarrow> CodeIssue list" where
  "division_by_zero_at i stripped =
     (if matches False re_division stripped \<and> \<not> contains stripped ''if''
      then [\<lparr>type = ''division_by_zero_risk'', severity = ''warning'',
             line_number = int i + 1, line_content = stripped, code_snippet = [stripped]\<rparr>]
      else [])"

text \<open>7. An array indexed by a variable on a line without an existence test.\<close>

definition array_bounds_at :: "nat \<Rightarrow> string \<Rightarrow> CodeIssue list" where
  "array_bounds_at i stripped =
     (if matches False re_variable_index stripped \<and> \<not> contains stripped ''isset'' \<and>
         \<not> contains stripped ''array_key_exists''
      then [\<lparr>type = ''array_bounds_risk'', severity = ''warning'', line_number = int i + 1,
             line_content = stripped, code_snippet = [stripped]\<rparr>]
      else [])"

text \<open>8. A file operation on a line without an existence test.\<close>

definition file_operation_at :: "nat \<Rightarrow> string \<Rightarrow> CodeIssue list" where
  "file_operation_at i stripped =
     (if matches False re_file_operation stripped \<and> \<not> matches False re_file_check stripped
      then [\<lparr>type = ''file_operation_risk'', severity = ''warning'', line_number = int i + 1,
             line_content = stripped, code_snippet = [stripped]\<rparr>]
      else [])"

definition logic_errors_at :: "string list \<Rightarrow> nat \<Rightarrow> string \<Rightarrow> CodeIssue list" where
  "logic_errors_at lines i line =
     (let stripped = strip line in
      infinite_while_at lines i stripped @ for_without_step_at i stripped @
      infinite_recursion_at lines i stripped @ empty_catch_at lines i stripped @
      memory_leak_at lines i stripped @ division_by_zero_at i stripped @
      array_bounds_at i stripped @ file_operation_at i stripped)"

definition find_logic_errors :: "string list \<Rightarrow> CodeIssue list" where
  "find_logic_errors lines =
     concat (map (\<lambda>(i, line). logic_errors_at lines i line) (enumerate 0 lines))"

subsection \<open>\<open>_find_performance_issues\<close>\<close>

text \<open>\<^verbatim>\<open>(for|while|foreach)\s*\(\<close>\<close>

definition re_loop_head :: regex where
  "re_loop_head =
     seq [Group 1 (alts [lit ''for'', lit ''while'', lit ''foreach'']), Star ws, chr CHR ''('']"

text \<open>\<^verbatim>\<open>(->query\(|->prepare\(|mysql_|mysqli_)\<close>\<close>

definition re_database_call :: regex where
  "re_database_call =
     Group 1 (alts [lit ''->query('', lit ''->prepare('', lit ''mysql_'', lit ''mysqli_''])"

text \<open>\<^verbatim>\<open>file_get_contents\(\<close>\<close>

definition re_file_get_contents :: regex where
  "re_file_get_contents = lit ''file_get_contents(''"

text \<open>\<^verbatim>\<open>\$\w+\s*\.=\<close>\<close>

definition re_string_append :: regex where
  "re_string_append = seq [chr CHR ''$'', Plus wordc, Star ws, lit ''.='']"

text \<open>\<^verbatim>\<open>preg_(match|replace)\(\<close>\<close>

definition re_preg_call :: regex where
  "re_preg_call =
     seq [lit ''preg_'', Group 1 (alts [lit ''match'', lit ''replace'']), chr CHR ''('']"

text \<open>\<^verbatim>\<open>count\(\$\w+\)\<close>\<close>

definition re_count_call :: regex where
  "re_count_call = seq [lit ''count($'', Plus wordc, chr CHR '')'']"

definition performance_issues_at :: "string list \<Rightarrow> nat \<Rightarrow> string \<Rightarrow> CodeIssue list" where
  "performance_issues_at lines i line =
     (let stripped = strip line in
      (if matches False re_loop_head stripped
       then (case first_line_where (\<lambda>l. matches False re_database_call l)
                    (take 29 (drop (i + 1) lines)) (i + 1) of
               Some (j, l) \<Rightarrow>
                 [\<lparr>type = ''query_in_loop'', severity = ''error'', line_number = int j + 1,
                   line_content = strip l, code_snippet = [strip l]\<rparr>]
             | None \<Rightarrow> [])
       else []) @
      (if matches False re_file_get_contents stripped
       then [\<lparr>type = ''large_file_read_risk'', severity = ''warning'', line_number = int i + 1,
              line_content = stripped, code_snippet = [stripped]\<rparr>]
       else []) @
      (if matches False re_loop_head stripped
       then (case first_line_where (\<lambda>l. matches False re_string_append l)
                    (take 19 (drop (i + 1) lines)) (i + 1) of
               Some (j, l) \<Rightarrow>
                 [\<lparr>type = ''string_concat_in_loop'', severity = ''warning'',
                   line_number = int j + 1, line_content = strip l, code_snippet = [strip l]\<rparr>]
             | None \<Rightarrow> [])
       else []) @
      (if matches False re_loop_head stripped
       then (case first_line_where (\<lambda>l. matches False re_preg_call l)
                    (take 19 (drop (i + 1) lines)) (i + 1) of
               Some (j, l) \<Rightarrow>
                 [\<lparr>type = ''regex_compile_in_loop'', severity = ''info'',
                   line_number = int j + 1, line_content = strip l, code_snippet = [strip l]\<rparr>]
             | None \<Rightarrow> [])
       else []) @
      (if matches False re_count_call stripped \<and> contains stripped ''for''
       then [\<lparr>type = ''redundant_function_call'', severity = ''info'', line_number = int i + 1,
              line_content = stripped, code_snippet = [stripped]\<rparr>]
       else []))"

definition find_performance_issues :: "string list \<Rightarrow> CodeIssue list" where
  "find_performance_issues lines =
     concat (map (\<lambda>(i, line). performance_issues_at lines i line) (enumerate 0 lines))"

subsection \<open>\<open>_detect_detailed_issues\<close>\<close>

text \<open>
  The ten detectors in the order of the source, on the lines of the file. (The source
  wraps them in a \<open>try\<close>; no operation of the detectors raises on a list of strings.)
\<close>

definition detect_detailed_issues :: "string list \<Rightarrow> CodeIssue list" where
  "detect_detailed_issues lines =
     find_long_methods lines @ find_complex_methods lines @ find_long_parameter_lists lines @
     find_naming_issues lines @ find_uncommented_methods lines @
     find_sql_injection_risks lines @ find_security_issues lines @
     find_code_quality_issues lines @ find_logic_errors lines @ find_performance_issues lines"

subsection \<open>The three line tests of the nesting detector\<close>

text \<open>
  \<open>_find_complex_methods\<close> looks at a line through three tests: it holds a function
  declaration, it holds a branching keyword, it starts with a closing brace. They are
  named here for the statements about the detector, together with the issue it appends
  for a method that began at line \<open>s\<close>.
\<close>

definition opens_method :: "string \<Rightarrow> bool" where
  "opens_method l = matches True re_function_open (strip l)"

definition has_control :: "string \<Rightarrow> bool" where
  "has_control l = matches True re_control (strip l)"

definition closes_block :: "string \<Rightarrow> bool" where
  "closes_block l = startswith (strip l) ''}''"


section \<open>The classifier adapter (\<open>CodeSmellDetector\<close>)\<close>

text \<open>\<open>_determine_critical_smell_type\<close>: the label for a list of error-severity issues.\<close>

definition determine_critical_smell_type :: "CodeIssue list \<Rightarrow> string" where
  "determine_critical_smell_type critical_issues =
     (let issue_types = map type critical_issues in
      if list_ex (\<lambda>t. contains t ''sql_injection'' \<or> contains t ''xss'' \<or> contains t ''security'')
           issue_types
      then ''security_issues''
      else if list_ex (\<lambda>t. contains t ''infinite'' \<or> contains t ''loop'') issue_types
      then ''logic_errors''
      else if list_ex (\<lambda>t. contains t ''empty_catch'') issue_types
      then ''error_handling_issues''
      else if list_ex (\<lambda>t. contains t ''performance'' \<or> contains t ''query_in_loop'') issue_types
      then ''performance_issues''
      else ''critical_issues'')"

text \<open>\<open>_determine_warning_smell_type\<close>: the label for a list of warning-severity issues.\<close>

definition determine_warning_smell_type :: "CodeIssue list \<Rightarrow> string" where
  "determine_warning_smell_type warning_issues =
     (let issue_types = map type warning_issues in
      if list_ex (\<lambda>t. contains t ''long_method'') issue_types then ''long_method''
      else if list_ex (\<lambda>t. contains t ''long_parameter'') issue_types then ''long_parameter_list''
      else if list_ex (\<lambda>t. contains t ''naming'') issue_types then ''naming_issues''
      else if list_ex (\<lambda>t. contains t ''missing_comment'') issue_types then ''low_cohesion''
      else ''code_quality_issues'')"

text \<open>
  \<open>_predict_with_rules\<close>. \<open>smell_scores\<close> is a dictionary filled in a fixed order, modelled
  as the list of its items in insertion order; \<open>max(items, key=...)\<close> returns the first item
  of greatest score. The scores are real numbers here and binary floating-point numbers in
  the source, where a quotient is rounded: for a comment ratio of 0.08 the source computes
  0.20000000000000004, so two scores that are equal as reals can differ in the source, and
  the item of greatest score with them. No property proved below depends on the value of
  this function.
\<close>

fun max_item :: "(string \<times> real) \<Rightarrow> (string \<times> real) list \<Rightarrow> (string \<times> real)" where
  "max_item best [] = best"
| "max_item best (x # xs) = max_item (if snd best < snd x then x else best) xs"

definition predict_with_rules :: "CodeFeatures \<Rightarrow> string \<times> real" where
  "predict_with_rules f =
     (let smell_scores =
        (if long_method_count f > 0
         then [(''long_method'', min (real_of_int (long_method_count f) / 5) 1)] else []) @
        (if complex_method_count f > 0
         then [(''complex_method'', min (real_of_int (complex_method_count f) / 3) 1)] else []) @
        (if large_parameter_list_count f > 0
         then [(''long_parameter_list'', min (real_of_int (large_parameter_list_count f) / 3) 1)]
         else []) @
        (if naming_convention_violations f > 0
         then [(''naming_issues'', min (real_of_int (naming_convention_violations f) / 10) 1)]
         else []) @
        (if long_class_count f > 0
         then [(''large_class'', min (real_of_int (long_class_count f) / 2) 1)] else []) @
        (if comment_ratio f < 1 / 10
         then [(''low_comment_ratio'', (1 / 10 - comment_ratio f) / (1 / 10))] else [])
      in case smell_scores of
           [] \<Rightarrow> (''clean'', 8 / 10)
         | x # xs \<Rightarrow> max_item x xs)"

text \<open>
  \<open>_predict_with_model\<close>: the trained model is a black box \<open>predict\<close> from the features to a
  label and a confidence; \<open>None\<close> is an exception inside the prediction, which the source
  catches by falling back to the rules.
\<close>

definition predict_with_model ::
  "(CodeFeatures \<Rightarrow> (string \<times> real) option) \<Rightarrow> CodeFeatures \<Rightarrow> string \<times> real" where
  "predict_with_model predict f =
     (case predict f of Some r \<Rightarrow> r | None \<Rightarrow> predict_with_rules f)"

text \<open>\<open>_detect_specific_issues\<close>: the feature-level findings, in the order of the source.\<close>

definition detect_specific_issues :: "CodeFeatures \<Rightarrow> FeatureIssue list" where
  "detect_specific_issues f =
     (if long_method_count f > 0
      then [\<lparr>d_type = ''long_method'', d_severity = ''warning'',
             d_metric = real_of_int (max_method_length f)\<rparr>] else []) @
     (if complex_method_count f > 0
      then [\<lparr>d_type = ''complex_method'', d_severity = ''warning'',
             d_metric = real_of_int (max_method_complexity f)\<rparr>] else []) @
     (if large_parameter_list_count f > 0
      then [\<lparr>d_type = ''long_parameter_list'', d_severity = ''warning'',
             d_metric = real_of_int (max_method_parameters f)\<rparr>] else []) @
     (if naming_convention_violations f > 0
      then [\<lparr>d_type = ''naming_issues'', d_severity = ''info'',
             d_metric = real_of_int (naming_convention_violations f)\<rparr>] else []) @
     (if long_class_count f > 0
      then [\<lparr>d_type = ''large_class'', d_severity = ''warning'',
             d_metric = real_of_int (long_class_count f)\<rparr>] else []) @
     (if comment_ratio f < 1 / 10
      then [\<lparr>d_type = ''low_comment_ratio'', d_severity = ''info'',
             d_metric = comment_ratio f\<rparr>] else []) @
     (if cyclomatic_complexity f > 20
      then [\<lparr>d_type = ''high_complexity'', d_severity = ''error'',
             d_metric = real_of_int (cyclomatic_complexity f)\<rparr>] else [])"

text \<open>
  The \<open>suggestion\<close> entries of \<open>self.smell_rules\<close>, by issue type, as UTF-8 bytes. In order:
  split the long method; split the large class; use a parameter object or a configuration
  class; simplify the method and reduce nesting; follow the PSR-1/PSR-12 naming rules; add
  the necessary comments.
\<close>

definition smell_rules_suggestion :: "string \<Rightarrow> string option" where
  "smell_rules_suggestion issue_type =
    (if issue_type = ''long_method'' then Some (
       [CHR 0xE8, CHR 0x80, CHR 0x83, CHR 0xE8, CHR 0x99, CHR 0x91, CHR 0xE5, CHR 0xB0,
       CHR 0x86, CHR 0xE9, CHR 0x95, CHR 0xBF, CHR 0xE6, CHR 0x96, CHR 0xB9, CHR 0xE6,
       CHR 0xB3, CHR 0x95, CHR 0xE5, CHR 0x88, CHR 0x86, CHR 0xE8, CHR 0xA7, CHR 0xA3,
       CHR 0xE4, CHR 0xB8, CHR 0xBA, CHR 0xE5, CHR 0xA4, CHR 0x9A, CHR 0xE4, CHR 0xB8,
       CHR 0xAA, CHR 0xE5, CHR 0xB0, CHR 0x8F, CHR 0xE6, CHR 0x96, CHR 0xB9, CHR 0xE6,
       CHR 0xB3, CHR 0x95])
     else if issue_type = ''large_class'' then Some (
       [CHR 0xE8, CHR 0x80, CHR 0x83, CHR 0xE8, CHR 0x99, CHR 0x91, CHR 0xE5, CHR 0xB0,
       CHR 0x86, CHR 0xE5, CHR 0xA4, CHR 0xA7, CHR 0xE7, CHR 0xB1, CHR 0xBB, CHR 0xE5,
       CHR 0x88, CHR 0x86, CHR 0xE8, CHR 0xA7, CHR 0xA3, CHR 0xE4, CHR 0xB8, CHR 0xBA,
       CHR 0xE5, CHR 0xA4, CHR 0x9A, CHR 0xE4, CHR 0xB8, CHR 0xAA, CHR 0xE5, CHR 0xB0,
       CHR 0x8F, CHR 0xE7, CHR 0xB1, CHR 0xBB])
     else if issue_type = ''long_parameter_list'' then Some (
       [CHR 0xE8, CHR 0x80, CHR 0x83, CHR 0xE8, CHR 0x99, CHR 0x91, CHR 0xE4, CHR 0xBD,
       CHR 0xBF, CHR 0xE7, CHR 0x94, CHR 0xA8, CHR 0xE5, CHR 0x8F, CHR 0x82, CHR 0xE6,
       CHR 0x95, CHR 0xB0, CHR 0xE5, CHR 0xAF, CHR 0xB9, CHR 0xE8, CHR 0xB1, CHR 0xA1,
       CHR 0xE6, CHR 0x88, CHR 0x96, CHR 0xE9, CHR 0x85, CHR 0x8D, CHR 0xE7, CHR 0xBD,
       CHR 0xAE, CHR 0xE7, CHR 0xB1, CHR 0xBB])
     else if issue_type = ''complex_method'' then Some (
       [CHR 0xE7, CHR 0xAE, CHR 0x80, CHR 0xE5, CHR 0x8C, CHR 0x96, CHR 0xE6, CHR 0x96,
       CHR 0xB9, CHR 0xE6, CHR 0xB3, CHR 0x95, CHR 0xE9, CHR 0x80, CHR 0xBB, CHR 0xE8,
       CHR 0xBE, CHR 0x91, CHR 0xEF, CHR 0xBC, CHR 0x8C, CHR 0xE5, CHR 0x87, CHR 0x8F,
       CHR 0xE5, CHR 0xB0, CHR 0x91, CHR 0xE5, CHR 0xB5, CHR 0x8C, CHR 0xE5, CHR 0xA5,
       CHR 0x97, CHR 0xE5, CHR 0xB1, CHR 0x82, CHR 0xE6, CHR 0xAC, CHR 0xA1])
     else if issue_type = ''naming_issues'' then Some (
       [CHR 0xE9, CHR 0x81, CHR 0xB5, CHR 0xE5, CHR 0xBE, CHR 0xAA] @ ''PSR-1/PSR-12'' @
       [CHR 0xE5, CHR 0x91, CHR 0xBD, CHR 0xE5, CHR 0x90, CHR 0x8D, CHR 0xE8, CHR 0xA7,
       CHR 0x84, CHR 0xE8, CHR 0x8C, CHR 0x83])
     else if issue_type = ''low_comment_ratio'' then Some (
       [CHR 0xE6, CHR 0xB7, CHR 0xBB, CHR 0xE5, CHR 0x8A, CHR 0xA0, CHR 0xE5, CHR 0xBF,
       CHR 0x85, CHR 0xE8, CHR 0xA6, CHR 0x81, CHR 0xE7, CHR 0x9A, CHR 0x84, CHR 0xE4,
       CHR 0xBB, CHR 0xA3, CHR 0xE7, CHR 0xA0, CHR 0x81, CHR 0xE6, CHR 0xB3, CHR 0xA8,
       CHR 0xE9, CHR 0x87, CHR 0x8A, CHR 0xE5, CHR 0x92, CHR 0x8C, CHR 0xE6, CHR 0x96,
       CHR 0x87, CHR 0xE6, CHR 0xA1, CHR 0xA3])
     else None)"

definition general_suggestions :: "string \<Rightarrow> string list option" where
  "general_suggestions label =
    (if label = ''long_method'' then Some [
       [CHR 0xE4, CHR 0xBD, CHR 0xBF, CHR 0xE7, CHR 0x94, CHR 0xA8] @ ''Extract Method'' @
       [CHR 0xE9, CHR 0x87, CHR 0x8D, CHR 0xE6, CHR 0x9E, CHR 0x84, CHR 0xE6, CHR 0x8A,
       CHR 0x80, CHR 0xE6, CHR 0x9C, CHR 0xAF, CHR 0xE5, CHR 0x88, CHR 0x86, CHR 0xE8,
       CHR 0xA7, CHR 0xA3, CHR 0xE9, CHR 0x95, CHR 0xBF, CHR 0xE6, CHR 0x96, CHR 0xB9,
       CHR 0xE6, CHR 0xB3, CHR 0x95],
       [CHR 0xE7, CHR 0xA1, CHR 0xAE, CHR 0xE4, CHR 0xBF, CHR 0x9D, CHR 0xE6, CHR 0xAF,
       CHR 0x8F, CHR 0xE4, CHR 0xB8, CHR 0xAA, CHR 0xE6, CHR 0x96, CHR 0xB9, CHR 0xE6,
       CHR 0xB3, CHR 0x95, CHR 0xE5, CHR 0x8F, CHR 0xAA, CHR 0xE5, CHR 0x81, CHR 0x9A,
       CHR 0xE4, CHR 0xB8, CHR 0x80, CHR 0xE4, CHR 0xBB, CHR 0xB6, CHR 0xE4, CHR 0xBA,
       CHR 0x8B, CHR 0xEF, CHR 0xBC, CHR 0x88, CHR 0xE5, CHR 0x8D, CHR 0x95, CHR 0xE4,
       CHR 0xB8, CHR 0x80, CHR 0xE8, CHR 0x81, CHR 0x8C, CHR 0xE8, CHR 0xB4, CHR 0xA3,
       CHR 0xE5, CHR 0x8E, CHR 0x9F, CHR 0xE5, CHR 0x88, CHR 0x99, CHR 0xEF, CHR 0xBC,
       CHR 0x89],
       [CHR 0xE8, CHR 0x80, CHR 0x83, CHR 0xE8, CHR 0x99, CHR 0x91, CHR 0xE4, CHR 0xBD,
       CHR 0xBF, CHR 0xE7, CHR 0x94, CHR 0xA8] @ ''Template Method'' @ [CHR 0xE6, CHR 0xA8,
       CHR 0xA1, CHR 0xE5, CHR 0xBC, CHR 0x8F, CHR 0xE5, CHR 0xA4, CHR 0x84, CHR 0xE7,
       CHR 0x90, CHR 0x86, CHR 0xE9, CHR 0x87, CHR 0x8D, CHR 0xE5, CHR 0xA4, CHR 0x8D,
       CHR 0xE9, CHR 0x80, CHR 0xBB, CHR 0xE8, CHR 0xBE, CHR 0x91]]
     else if label = ''complex_method'' then Some [
       [CHR 0xE5, CHR 0x87, CHR 0x8F, CHR 0xE5, CHR 0xB0, CHR 0x91, CHR 0xE5, CHR 0xB5,
       CHR 0x8C, CHR 0xE5, CHR 0xA5, CHR 0x97, CHR 0xE5, CHR 0xB1, CHR 0x82, CHR 0xE6,
       CHR 0xAC, CHR 0xA1, CHR 0xEF, CHR 0xBC, CHR 0x8C, CHR 0xE4, CHR 0xBD, CHR 0xBF,
       CHR 0xE7, CHR 0x94, CHR 0xA8, CHR 0xE6, CHR 0x97, CHR 0xA9, CHR 0xE6, CHR 0x9C,
       CHR 0x9F, CHR 0xE8, CHR 0xBF, CHR 0x94, CHR 0xE5, CHR 0x9B, CHR 0x9E],
       [CHR 0xE5, CHR 0xB0, CHR 0x86, CHR 0xE5, CHR 0xA4, CHR 0x8D, CHR 0xE6, CHR 0x9D,
       CHR 0x82, CHR 0xE6, CHR 0x9D, CHR 0xA1, CHR 0xE4, CHR 0xBB, CHR 0xB6, CHR 0xE6,
       CHR 0x8F, CHR 0x90, CHR 0xE5, CHR 0x8F, CHR 0x96, CHR 0xE4, CHR 0xB8, CHR 0xBA,
       CHR 0xE6, CHR 0x9C, CHR 0x89, CHR 0xE6, CHR 0x84, CHR 0x8F, CHR 0xE4, CHR 0xB9,
       CHR 0x89, CHR 0xE7, CHR 0x9A, CHR 0x84, CHR 0xE6, CHR 0x96, CHR 0xB9, CHR 0xE6,
       CHR 0xB3, CHR 0x95],
       [CHR 0xE8, CHR 0x80, CHR 0x83, CHR 0xE8, CHR 0x99, CHR 0x91, CHR 0xE4, CHR 0xBD,
       CHR 0xBF, CHR 0xE7, CHR 0x94, CHR 0xA8, CHR 0xE7, CHR 0xAD, CHR 0x96, CHR 0xE7,
       CHR 0x95, CHR 0xA5, CHR 0xE6, CHR 0xA8, CHR 0xA1, CHR 0xE5, CHR 0xBC, CHR 0x8F,
       CHR 0xE6, CHR 0x9B, CHR 0xBF, CHR 0xE6, CHR 0x8D, CHR 0xA2, CHR 0xE5, CHR 0xA4,
       CHR 0x8D, CHR 0xE6, CHR 0x9D, CHR 0x82, CHR 0xE7, CHR 0x9A, CHR 0x84, CHR 0xE6,
       CHR 0x9D, CHR 0xA1, CHR 0xE4, CHR 0xBB, CHR 0xB6, CHR 0xE9, CHR 0x80, CHR 0xBB,
       CHR 0xE8, CHR 0xBE, CHR 0x91]]
     else if label = ''long_parameter_list'' then Some [
       [CHR 0xE4, CHR 0xBD, CHR 0xBF, CHR 0xE7, CHR 0x94, CHR 0xA8, CHR 0xE5, CHR 0x8F,
       CHR 0x82, CHR 0xE6, CHR 0x95, CHR 0xB0, CHR 0xE5, CHR 0xAF, CHR 0xB9, CHR 0xE8,
       CHR 0xB1, CHR 0xA1] @ ''(Parameter Object)'' @ [CHR 0xE9, CHR 0x87, CHR 0x8D, CHR 0xE6,
       CHR 0x9E, CHR 0x84],
       [CHR 0xE8, CHR 0x80, CHR 0x83, CHR 0xE8, CHR 0x99, CHR 0x91, CHR 0xE4, CHR 0xBD,
       CHR 0xBF, CHR 0xE7, CHR 0x94, CHR 0xA8] @ ''Builder'' @ [CHR 0xE6, CHR 0xA8, CHR 0xA1,
       CHR 0xE5, CHR 0xBC, CHR 0x8F, CHR 0xE6, CHR 0x9E, CHR 0x84, CHR 0xE9, CHR 0x80,
       CHR 0xA0, CHR 0xE5, CHR 0xA4, CHR 0x8D, CHR 0xE6, CHR 0x9D, CHR 0x82, CHR 0xE5,
       CHR 0xAF, CHR 0xB9, CHR 0xE8, CHR 0xB1, CHR 0xA1],
       [CHR 0xE6, CHR 0xA3, CHR 0x80, CHR 0xE6, CHR 0x9F, CHR 0xA5, CHR 0xE6, CHR 0x98,
       CHR 0xAF, CHR 0xE5, CHR 0x90, CHR 0xA6, CHR 0xE8, CHR 0xBF, CHR 0x9D, CHR 0xE5,
       CHR 0x8F, CHR 0x8D, CHR 0xE4, CHR 0xBA, CHR 0x86, CHR 0xE5, CHR 0x8D, CHR 0x95,
       CHR 0xE4, CHR 0xB8, CHR 0x80, CHR 0xE8, CHR 0x81, CHR 0x8C, CHR 0xE8, CHR 0xB4,
       CHR 0xA3, CHR 0xE5, CHR 0x8E, CHR 0x9F, CHR 0xE5, CHR 0x88, CHR 0x99]]
     else if label = ''large_class'' then Some [
       [CHR 0xE4, CHR 0xBD, CHR 0xBF, CHR 0xE7, CHR 0x94, CHR 0xA8] @ ''Extract Class'' @
       [CHR 0xE9, CHR 0x87, CHR 0x8D, CHR 0xE6, CHR 0x9E, CHR 0x84, CHR 0xE5, CHR 0x88,
       CHR 0x86, CHR 0xE8, CHR 0xA7, CHR 0xA3, CHR 0xE5, CHR 0xA4, CHR 0xA7, CHR 0xE7,
       CHR 0xB1, CHR 0xBB],
       [CHR 0xE8, CHR 0xAF, CHR 0x86, CHR 0xE5, CHR 0x88, CHR 0xAB, CHR 0xE7, CHR 0xB1,
       CHR 0xBB, CHR 0xE7, CHR 0x9A, CHR 0x84, CHR 0xE4, CHR 0xB8, CHR 0x8D, CHR 0xE5,
       CHR 0x90, CHR 0x8C, CHR 0xE8, CHR 0x81, CHR 0x8C, CHR 0xE8, CHR 0xB4, CHR 0xA3,
       CHR 0xE5, CHR 0xB9, CHR 0xB6, CHR 0xE5, CHR 0x88, CHR 0x86, CHR 0xE7, CHR 0xA6,
       CHR 0xBB],
       [CHR 0xE8, CHR 0x80, CHR 0x83, CHR 0xE8, CHR 0x99, CHR 0x91, CHR 0xE4, CHR 0xBD,
       CHR 0xBF, CHR 0xE7, CHR 0x94, CHR 0xA8, CHR 0xE7, CHR 0xBB, CHR 0x84, CHR 0xE5,
       CHR 0x90, CHR 0x88, CHR 0xE4, CHR 0xBB, CHR 0xA3, CHR 0xE6, CHR 0x9B, CHR 0xBF,
       CHR 0xE7, CHR 0xBB, CHR 0xA7, CHR 0xE6, CHR 0x89, CHR 0xBF]]
     else if label = ''naming_issues'' then Some [
       [CHR 0xE9, CHR 0x81, CHR 0xB5, CHR 0xE5, CHR 0xBE, CHR 0xAA] @ ''PSR-1'' @ [CHR 0xE5,
       CHR 0x92, CHR 0x8C] @ ''PSR-12'' @ [CHR 0xE7, CHR 0xBC, CHR 0x96, CHR 0xE7, CHR 0xA0,
       CHR 0x81, CHR 0xE8, CHR 0xA7, CHR 0x84, CHR 0xE8, CHR 0x8C, CHR 0x83],
       [CHR 0xE4, CHR 0xBD, CHR 0xBF, CHR 0xE7, CHR 0x94, CHR 0xA8, CHR 0xE6, CHR 0x9C,
       CHR 0x89, CHR 0xE6, CHR 0x84, CHR 0x8F, CHR 0xE4, CHR 0xB9, CHR 0x89, CHR 0xE7,
       CHR 0x9A, CHR 0x84, CHR 0xE5, CHR 0x90, CHR 0x8D, CHR 0xE7, CHR 0xA7, CHR 0xB0,
       CHR 0xE6, CHR 0x8F, CHR 0x8F, CHR 0xE8, CHR 0xBF, CHR 0xB0, CHR 0xE5, CHR 0x8F,
       CHR 0x98, CHR 0xE9, CHR 0x87, CHR 0x8F, CHR 0xE5, CHR 0x92, CHR 0x8C, CHR 0xE6,
       CHR 0x96, CHR 0xB9, CHR 0xE6, CHR 0xB3, CHR 0x95, CHR 0xE7, CHR 0x9A, CHR 0x84,
       CHR 0xE7, CHR 0x94, CHR 0xA8, CHR 0xE9, CHR 0x80, CHR 0x94],
       [CHR 0xE4, CHR 0xBF, CHR 0x9D, CHR 0xE6, CHR 0x8C, CHR 0x81, CHR 0xE5, CHR 0x91,
       CHR 0xBD, CHR 0xE5, CHR 0x90, CHR 0x8D, CHR 0xE9, CHR 0xA3, CHR 0x8E, CHR 0xE6,
       CHR 0xA0, CHR 0xBC, CHR 0xE7, CHR 0x9A, CHR 0x84, CHR 0xE4, CHR 0xB8, CHR 0x80,
       CHR 0xE8, CHR 0x87, CHR 0xB4, CHR 0xE6, CHR 0x80, CHR 0xA7]]
     else None)"

text \<open>
  \<open>_generate_suggestions\<close>, in two steps. First the list \<open>suggestions\<close> as the source
  has it before the last statement: the fix hint of every feature-level issue whose type is
  a key of \<open>smell_rules\<close>, in issue order, then the tips keyed by the final label.
\<close>

definition collected_suggestions :: "FeatureIssue list \<Rightarrow> string \<Rightarrow> string list" where
  "collected_suggestions found label =
     concat (map (\<lambda>issue. case smell_rules_suggestion (d_type issue) of
                             Some s \<Rightarrow> [s] | None \<Rightarrow> []) found) @
     (case general_suggestions label of Some g \<Rightarrow> g | None \<Rightarrow> [])"

text \<open>
  Then the last statement, \<open>list(set(suggestions))[:5]\<close>. The order in which a Python set
  of strings is iterated depends on the strings' hashes, which differ from run to run; the
  model takes that enumeration as the parameter \<open>set_list\<close>, from the list of inserted
  strings to the list the iteration yields.
\<close>

definition generate_suggestions ::
  "(string list \<Rightarrow> string list) \<Rightarrow> FeatureIssue list \<Rightarrow> string \<Rightarrow> string list" where
  "generate_suggestions set_list found label =
     take 5 (set_list (collected_suggestions found label))"

text \<open>What Python guarantees of \<open>list(set(xs))\<close>: each inserted string once, nothing else.\<close>

definition set_iteration :: "(string list \<Rightarrow> string list) \<Rightarrow> bool" where
  "set_iteration set_list = (\<forall>xs. distinct (set_list xs) \<and> set (set_list xs) = set xs)"

text \<open>
  The order the specification describes for the suggestions: every string at the place of
  its first occurrence. It is not part of the program; the program's list is compared
  with it.
\<close>

fun first_occurrences :: "string list \<Rightarrow> string list \<Rightarrow> string list" where
  "first_occurrences seen [] = []"
| "first_occurrences seen (x # xs) =
     (if x \<in> set seen then first_occurrences seen xs
      else x # first_occurrences (x # seen) xs)"

text \<open>
  \<open>detect_smells\<close>. The calls that reach outside the function are its arguments:
  \<open>path_exists\<close> is \<open>os.path.exists(file_path)\<close>, \<open>extracted\<close> the outcome of
  \<open>extract_features\<close> (features, or the exception it raised), \<open>scanned\<close> the list that
  \<open>_detect_detailed_issues\<close> returned, \<open>model\<close> the loaded model if there is one.
\<close>

definition detect_smells ::
  "(CodeFeatures \<Rightarrow> (string \<times> real) option) option \<Rightarrow> (string list \<Rightarrow> string list) \<Rightarrow>
   string \<Rightarrow> bool \<Rightarrow> py_error + CodeFeatures \<Rightarrow> CodeIssue list \<Rightarrow>
   py_error + SmellDetectionResult" where
  "detect_smells model set_list path path_exists extracted scanned =
     (if \<not> path_exists then Inl FileNotFoundError
      else case extracted of
        Inl e \<Rightarrow> Inl e
      | Inr f \<Rightarrow>
          (let found = detect_specific_issues f;
               critical_issues = filter (\<lambda>issue. severity issue = ''error'') scanned;
               (label, conf) =
                 (if critical_issues \<noteq> []
                  then (determine_critical_smell_type critical_issues, 95 / 100)
                  else
                    (let (label, conf) =
                           (case model of
                              Some predict \<Rightarrow> predict_with_model predict f
                            | None \<Rightarrow> predict_with_rules f);
                         warning_issues = filter (\<lambda>issue. severity issue = ''warning'') scanned
                     in if warning_issues \<noteq> [] \<and> label = ''clean''
                        then (determine_warning_smell_type warning_issues, max (75 / 100) conf)
                        else (label, conf)))
           in Inr \<lparr>file_path = path, smell_type = label, confidence = conf, features = f,
                   issues = found, suggestions = generate_suggestions set_list found label,
                   detailed_issues = scanned\<rparr>))"

section \<open>Structural facts and the inheritance depth (\<open>FeatureExtractor\<close>)\<close>

text \<open>
  A class as both parser backends return it: a dictionary with the keys \<open>name\<close>,
  \<open>extends\<close> (a name or \<open>None\<close>), \<open>implements\<close>, \<open>methods\<close> and \<open>properties\<close>.
\<close>

record FunctionFact =
  f_name :: string
  f_parameters :: int
  f_complexity :: int

record ClassFact =
  c_name :: string
  c_extends :: "string option"
  c_implements :: "string list"
  c_methods :: "FunctionFact list"
  c_properties :: int

text \<open>Python truthiness of an optional string: \<open>None\<close> and the empty string are false.\<close>

fun truthy :: "string option \<Rightarrow> bool" where
  "truthy None = False"
| "truthy (Some s) = (s \<noteq> [])"

text \<open>
  The \<open>while current_extends:\<close> loop of \<open>_calculate_inheritance_depth\<close>. The loop has no
  bound in the source, so it is a partial function: \<open>None\<close> means that it never exits.
\<close>

partial_function (option) follow_extends ::
  "ClassFact list \<Rightarrow> string option \<Rightarrow> int \<Rightarrow> int option" where
  "follow_extends classes current_extends depth =
     (if truthy current_extends
      then (case find (\<lambda>other_cls. Some (c_name other_cls) = current_extends) classes of
              Some other_cls \<Rightarrow> follow_extends classes (c_extends other_cls) (depth + 1)
            | None \<Rightarrow> Some (depth + 1))
      else Some depth)"

text \<open>The \<open>for cls in classes\<close> loop around it, with the running maximum.\<close>

fun inheritance_loop :: "ClassFact list \<Rightarrow> ClassFact list \<Rightarrow> int \<Rightarrow> int option" where
  "inheritance_loop classes [] max_depth = Some max_depth"
| "inheritance_loop classes (cls # rest) max_depth =
     (case follow_extends classes (c_extends cls) 1 of
        None \<Rightarrow> None
      | Some depth \<Rightarrow> inheritance_loop classes rest (max max_depth depth))"

definition calculate_inheritance_depth :: "ClassFact list \<Rightarrow> int option" where
  "calculate_inheritance_depth classes = inheritance_loop classes classes 0"

section \<open>The structural parser (\<open>PHPParser\<close>)\<close>


subsection \<open>\<open>_simple_parse\<close>, the built-in fallback\<close>







subsection \<open>\<open>parse_file\<close>\<close>









section \<open>Example inputs\<close>

text \<open>A feature profile of a small, commented file: no counter is raised.\<close>

definition quiet_features :: CodeFeatures where
  "quiet_features =
     \<lparr>lines_of_code = 12, cyclomatic_complexity = 2, number_of_classes = 0,
      number_of_functions = 1, number_of_methods = 1, number_of_variables = 2,
      avg_method_complexity = 1, max_method_complexity = 1, avg_method_parameters = 1,
      max_method_parameters = 1, avg_method_length = 4, max_method_length = 4,
      avg_class_methods = 0, max_class_methods = 0, avg_class_properties = 0,
      max_class_properties = 0, inheritance_depth = 0, long_method_count = 0,
      long_class_count = 0, large_parameter_list_count = 0, complex_method_count = 0,
      naming_convention_violations = 0, comment_ratio = 1 / 4\<rparr>"

text \<open>Two classes that name each other as parent: \<open>class A extends B\<close>, \<open>class B extends A\<close>.\<close>

definition cyclic_classes :: "ClassFact list" where
  "cyclic_classes =
     [\<lparr>c_name = ''A'', c_extends = Some ''B'', c_implements = [], c_methods = [],
       c_properties = 0\<rparr>,
      \<lparr>c_name = ''B'', c_extends = Some ''A'', c_implements = [], c_methods = [],
       c_properties = 0\<rparr>]"



text \<open>A function declaration with five parameters, and one with six.\<close>

definition five_parameters :: "string list" where
  "five_parameters = [''function f($a, $b, $c, $d, $e) {\<newline>'', ''}\<newline>'']"

definition six_parameters :: "string list" where
  "six_parameters = [''function f($a, $b, $c, $d, $e, $g) {\<newline>'', ''}\<newline>'']"

text \<open>A line that reads a super-global variable.\<close>

definition superglobal_line :: "string list" where
  "superglobal_line = [''$name = $_POST[\"name\"];\<newline>'']"

text \<open>A database query inside a \<open>foreach\<close> loop.\<close>

definition query_in_foreach :: "string list" where
  "query_in_foreach =
     [''foreach ($ids as $id) {\<newline>'', ''  $rows[] = $db->query($q);\<newline>'', ''}\<newline>'']"





definition method_end :: "string list" where
  "method_end = [''}\<newline>'']"










section \<open>Properties of the classifier adapter\<close>

lemma filter_nonempty: "x \<in> set xs \<Longrightarrow> P x \<Longrightarrow> filter P xs \<noteq> []"
  by (induction xs) auto

text \<open>The first branch of \<open>detect_smells\<close>: some scanned issue has severity \<open>error\<close>.\<close>

lemma detect_smells_critical:
  assumes "filter (\<lambda>issue. severity issue = ''error'') scanned \<noteq> []"
  shows "detect_smells model set_list path True (Inr f) scanned =
    Inr \<lparr>file_path = path,
         smell_type = determine_critical_smell_type
           (filter (\<lambda>issue. severity issue = ''error'') scanned),
         confidence = 95 / 100, features = f,
         issues = detect_specific_issues f,
         suggestions = generate_suggestions set_list (detect_specific_issues f)
           (determine_critical_smell_type
             (filter (\<lambda>issue. severity issue = ''error'') scanned)),
         detailed_issues = scanned\<rparr>"
  unfolding detect_smells_def Let_def using assms by simp

text \<open>
  Claim C1. If the scan of a file holds an error-severity issue of type
  \<open>sql_injection_risk\<close>, then \<open>detect_smells\<close> (for an existing path whose features could
  be extracted) returns the label \<open>security_issues\<close> with confidence 0.95, whatever the
  features, the model, the other issues and the order of the suggestion set are.
\<close>

theorem detect_smells_sql_injection_first:
  assumes "path_exists" and "extracted = Inr f"
    and "\<exists>i \<in> set scanned. severity i = ''error'' \<and> type i = ''sql_injection_risk''"
  shows "\<exists>r. detect_smells model set_list path path_exists extracted scanned = Inr r \<and>
             smell_type r = ''security_issues'' \<and> confidence r = 95 / 100"
proof -
  from assms(3) obtain i where i: "i \<in> set scanned" "severity i = ''error''"
    "type i = ''sql_injection_risk''" by blast
  let ?crit = "filter (\<lambda>issue. severity issue = ''error'') scanned"
  from i have mem: "i \<in> set ?crit" by simp
  have ne: "?crit \<noteq> []"
    using filter_nonempty [of i scanned "\<lambda>issue. severity issue = ''error''"] i(1,2) by simp
  have "contains (type i) ''sql_injection''" using i(3) by simp
  with mem have "list_ex (\<lambda>t. contains t ''sql_injection'' \<or> contains t ''xss'' \<or>
      contains t ''security'') (map type ?crit)"
    unfolding list_ex_iff by auto
  then have label: "determine_critical_smell_type ?crit = ''security_issues''"
    by (simp add: determine_critical_smell_type_def Let_def)
  show ?thesis
    unfolding assms(2) using assms(1) detect_smells_critical [OF ne] label by simp
qed

theorem detect_smells_sql_injection_first_witness:
  "\<exists>r. detect_smells None remdups ''a.php'' True (Inr quiet_features)
         [\<lparr>type = ''long_parameter_list'', severity = ''warning'', line_number = 1,
           line_content = ''function f($a, $b, $c, $d, $e, $g) {'',
           code_snippet = [''function f($a, $b, $c, $d, $e, $g) {'']\<rparr>,
          \<lparr>type = ''sql_injection_risk'', severity = ''error'', line_number = 2,
           line_content = ''$q = \"SELECT * FROM t WHERE id = \" . $id;'',
           code_snippet = [''$q = \"SELECT * FROM t WHERE id = \" . $id;'']\<rparr>,
          \<lparr>type = ''global_variable'', severity = ''warning'', line_number = 2,
           line_content = ''$q = \"SELECT * FROM t WHERE id = \" . $id;'',
           code_snippet = [''$q = \"SELECT * FROM t WHERE id = \" . $id;'']\<rparr>] = Inr r \<and>
       smell_type r = ''security_issues'' \<and> confidence r = 95 / 100"
  by (rule detect_smells_sql_injection_first [where f = quiet_features]) simp_all

text \<open>
  Claim C3, on the failing input. The scan of a file with a database query inside a
  \<open>foreach\<close> loop holds one error-severity issue, of type \<open>query_in_loop\<close>: a
  performance-pattern type and no security, infinite-loop, recursion or empty-handler
  type. The label \<open>detect_smells\<close> gives the file is \<open>logic_errors\<close>, whatever the
  features and the model are: the second test of \<open>_determine_critical_smell_type\<close> looks
  for the substring \<open>loop\<close>, which \<open>query_in_loop\<close> contains, before the fourth test is
  reached.
\<close>

theorem query_in_loop_labelled_logic_errors:
  "map (\<lambda>x. (type x, line_number x))
     (filter (\<lambda>issue. severity issue = ''error'') (detect_detailed_issues query_in_foreach)) =
     [(''query_in_loop'', 2)] \<and>
   (\<exists>r. detect_smells model set_list path True (Inr f)
          (detect_detailed_issues query_in_foreach) = Inr r \<and>
        smell_type r = ''logic_errors'' \<and> confidence r = 95 / 100)"
proof -
  have e: "map (\<lambda>x. (type x, line_number x))
     (filter (\<lambda>issue. severity issue = ''error'') (detect_detailed_issues query_in_foreach)) =
     [(''query_in_loop'', 2)]"
    by code_simp
  have c: "determine_critical_smell_type
     (filter (\<lambda>issue. severity issue = ''error'') (detect_detailed_issues query_in_foreach)) =
     ''logic_errors''"
    by code_simp
  from e have ne: "filter (\<lambda>issue. severity issue = ''error'')
      (detect_detailed_issues query_in_foreach) \<noteq> []"
    by auto
  show ?thesis
    using e c detect_smells_critical [OF ne, where model = model and set_list = set_list
        and path = path and f = f]
    by simp
qed

text \<open>
  More generally, no list of issues that holds a \<open>query_in_loop\<close> issue is ever labelled
  \<open>performance_issues\<close>.
\<close>

lemma query_in_loop_never_performance:
  assumes "i \<in> set critical_issues" and "type i = ''query_in_loop''"
  shows "determine_critical_smell_type critical_issues \<noteq> ''performance_issues''"
proof -
  have "contains (type i) ''loop''" using assms(2) by simp
  with assms(1) have "list_ex (\<lambda>t. contains t ''infinite'' \<or> contains t ''loop'')
      (map type critical_issues)"
    unfolding list_ex_iff by auto
  then show ?thesis
    by (simp add: determine_critical_smell_type_def Let_def)
qed

text \<open>
  Claim C7, as amended. Whatever order the set iteration has, the suggestions hold no
  duplicate, at most 5 entries, and only collected suggestions (fix hints of the issue
  types present and tips of the final label); when at most 5 distinct suggestions were
  collected, all of them are listed. The order is that of the set iteration.
\<close>

theorem generate_suggestions_distinct_capped:
  assumes "set_iteration set_list"
  shows "distinct (generate_suggestions set_list found label) \<and>
         length (generate_suggestions set_list found label) \<le> 5 \<and>
         set (generate_suggestions set_list found label)
           \<subseteq> set (collected_suggestions found label) \<and>
         (card (set (collected_suggestions found label)) \<le> 5 \<longrightarrow>
            set (generate_suggestions set_list found label)
              = set (collected_suggestions found label))"
proof -
  let ?c = "collected_suggestions found label"
  from assms have d: "distinct (set_list ?c)" and s: "set (set_list ?c) = set ?c"
    by (simp_all add: set_iteration_def)
  have "set (take 5 (set_list ?c)) \<subseteq> set ?c"
    using set_take_subset [of 5 "set_list ?c"] s by simp
  moreover have "set (take 5 (set_list ?c)) = set ?c" if "card (set ?c) \<le> 5"
  proof -
    have "length (set_list ?c) = card (set ?c)"
      using d s distinct_card [of "set_list ?c"] by simp
    with that have "take 5 (set_list ?c) = set_list ?c" by simp
    with s show ?thesis by simp
  qed
  ultimately show ?thesis
    using d by (simp add: generate_suggestions_def)
qed

theorem generate_suggestions_distinct_capped_witness:
  "set_iteration remdups \<and>
   distinct (generate_suggestions remdups (detect_specific_issues quiet_features) ''naming_issues'') \<and>
   length (generate_suggestions remdups (detect_specific_issues quiet_features) ''naming_issues'') = 3"
proof -
  have ok: "set_iteration remdups" by (simp add: set_iteration_def)
  have "length (generate_suggestions remdups (detect_specific_issues quiet_features)
      ''naming_issues'') = 3"
    by (simp add: generate_suggestions_def collected_suggestions_def detect_specific_issues_def
        quiet_features_def general_suggestions_def)
  with ok generate_suggestions_distinct_capped [OF ok] show ?thesis by blast
qed

text \<open>
  Claim C7 as stated fails in its last part. With two collected suggestions, a set
  iteration that yields them in the other order is a legal one, and the suggestions are
  then not in the order of first occurrence.
\<close>

theorem suggestions_not_in_first_occurrence_order:
  "set_iteration (\<lambda>xs. rev (remdups xs)) \<and>
   generate_suggestions (\<lambda>xs. rev (remdups xs))
     [\<lparr>d_type = ''long_method'', d_severity = ''warning'', d_metric = 60\<rparr>,
      \<lparr>d_type = ''complex_method'', d_severity = ''warning'', d_metric = 12\<rparr>] ''clean''
   \<noteq> take 5 (first_occurrences [] (collected_suggestions
     [\<lparr>d_type = ''long_method'', d_severity = ''warning'', d_metric = 60\<rparr>,
      \<lparr>d_type = ''complex_method'', d_severity = ''warning'', d_metric = 12\<rparr>] ''clean''))"
  by (simp add: set_iteration_def generate_suggestions_def collected_suggestions_def
      smell_rules_suggestion_def general_suggestions_def)

section \<open>Properties of the inheritance depth\<close>

text \<open>
  On the cyclic class list the loop of \<open>_calculate_inheritance_depth\<close> is entered with the
  parent \<open>A\<close> or \<open>B\<close> again and again: it returns for neither.
\<close>

lemma follow_extends_cyclic:
  assumes "follow_extends classes current_extends depth = Some r"
  shows "classes = cyclic_classes \<longrightarrow>
         current_extends \<noteq> Some ''A'' \<and> current_extends \<noteq> Some ''B''"
proof (rule follow_extends.raw_induct [OF _ assms])
  fix follow :: "ClassFact list \<Rightarrow> string option \<Rightarrow> int \<Rightarrow> int option"
    and cs ce and d r :: int
  assume IH: "\<And>cs ce d r. follow cs ce d = Some r \<Longrightarrow>
    cs = cyclic_classes \<longrightarrow> ce \<noteq> Some ''A'' \<and> ce \<noteq> Some ''B''"
  assume step: "(if truthy ce
      then case find (\<lambda>other_cls. Some (c_name other_cls) = ce) cs of
           None \<Rightarrow> Some (d + 1)
           | Some other_cls \<Rightarrow> follow cs (c_extends other_cls) (d + 1)
      else Some d) = Some r"
  show "cs = cyclic_classes \<longrightarrow> ce \<noteq> Some ''A'' \<and> ce \<noteq> Some ''B''"
  proof (intro impI conjI notI)
    assume "cs = cyclic_classes" "ce = Some ''A''"
    with step have "follow cyclic_classes (Some ''B'') (d + 1) = Some r"
      by (simp add: cyclic_classes_def)
    from IH [OF this] show False by simp
  next
    assume "cs = cyclic_classes" "ce = Some ''B''"
    with step have "follow cyclic_classes (Some ''A'') (d + 1) = Some r"
      by (simp add: cyclic_classes_def)
    from IH [OF this] show False by simp
  qed
qed

text \<open>
  Claim C10, on the failing input. For \<open>class A extends B\<close> and \<open>class B extends A\<close> the
  inheritance-depth computation has no result: the \<open>while\<close> loop never exits.
\<close>

theorem inheritance_depth_cycle_diverges:
  "calculate_inheritance_depth cyclic_classes = None"
proof -
  have "follow_extends cyclic_classes (Some ''B'') 1 = None"
    using follow_extends_cyclic [of cyclic_classes "Some ''B''" 1]
    by (cases "follow_extends cyclic_classes (Some ''B'') 1") auto
  then show ?thesis
    by (simp add: calculate_inheritance_depth_def cyclic_classes_def)
qed

section \<open>Properties of the rule catalog\<close>

subsection \<open>Membership in the lists the detectors build\<close>

lemma in_concat_enumerate:
  "x \<in> set (concat (map (\<lambda>(i, line). F i line) (enumerate n lines))) \<Longrightarrow>
   \<exists>i line. x \<in> set (F i line)"
  by (auto simp: in_set_enumerate_eq)

lemma mem_if_single: "x \<in> set (if c then [a] else []) \<longleftrightarrow> c \<and> x = a"
  by auto

lemma mem_concat_if_single:
  "x \<in> set (concat (map (\<lambda>v. if P v then [a] else []) vs)) \<longleftrightarrow>
   list_ex P vs \<and> x = a"
  by (induction vs) auto

lemma mem_case_pair_option:
  "x \<in> set (case v of None \<Rightarrow> [] | Some (j, l) \<Rightarrow> f j l) \<longleftrightarrow>
   (\<exists>j l. v = Some (j, l) \<and> x \<in> set (f j l))"
  by (cases v) auto


lemma mem_if_else_nil: "x \<in> set (if c then xs else []) \<longleftrightarrow> c \<and> x \<in> set xs"
  by simp

lemma mem_case_option:
  "x \<in> set (case v of None \<Rightarrow> [] | Some g \<Rightarrow> f g) \<longleftrightarrow> (\<exists>g. v = Some g \<and> x \<in> set (f g))"
  by (cases v) auto

lemmas mem_simps = mem_concat_if_single mem_if_single mem_if_else_nil mem_case_pair_option mem_case_option Let_def set_append Un_iff


lemma mem_case_prod: "x \<in> set (case p of (a, b) \<Rightarrow> f a b) \<longleftrightarrow> x \<in> set (f (fst p) (snd p))"
  by (cases p) simp

subsection \<open>The issue types each detector can emit\<close>

lemma logic_at_types:
  "x \<in> set (logic_errors_at lines i line) \<Longrightarrow>
   type x \<in> {''infinite_loop_risk'', ''infinite_recursion_risk'', ''empty_catch_block'',
               ''memory_leak_risk'', ''division_by_zero_risk'', ''array_bounds_risk'',
               ''file_operation_risk''}"
  apply (simp only: logic_errors_at_def infinite_while_at_def for_without_step_at_def
      infinite_recursion_at_def empty_catch_at_def memory_leak_at_def division_by_zero_at_def
      array_bounds_at_def file_operation_at_def mem_simps mem_case_prod)
  apply (elim disjE conjE exE)
  apply simp_all
  done

lemma naming_at_types:
  "x \<in> set (naming_issues_at i line) \<Longrightarrow> type x = ''naming_violation''"
  apply (simp only: naming_issues_at_def mem_simps)
  apply (elim disjE conjE exE)
  apply (simp_all add: naming_issue_def)
  done

lemma performance_at_types:
  "x \<in> set (performance_issues_at lines i line) \<Longrightarrow>
   type x \<in> {''query_in_loop'', ''large_file_read_risk'', ''string_concat_in_loop'',
               ''regex_compile_in_loop'', ''redundant_function_call''}"
  apply (simp only: performance_issues_at_def mem_simps mem_case_prod)
  apply (elim disjE conjE exE)
  apply simp_all
  done

lemma security_at_types:
  "x \<in> set (security_issues_at lines i line) \<Longrightarrow>
   type x \<in> {''xss_risk'', ''password_security'', ''hardcoded_credentials'', ''missing_error_handling''}"
  apply (simp only: security_issues_at_def mem_simps mem_case_prod)
  apply (elim disjE conjE exE)
  apply simp_all
  done

lemma code_quality_at_types:
  "x \<in> set (code_quality_issues_at lines i line) \<Longrightarrow>
   type x \<in> {''missing_class_comment'', ''public_property'', ''missing_type_declaration'',
               ''missing_access_modifier'', ''global_variable''}"
  apply (simp only: code_quality_issues_at_def mem_simps mem_case_prod)
  apply (elim disjE conjE exE)
  apply simp_all
  done

lemma long_methods_at_types:
  "x \<in> set (long_methods_at lines i line) \<Longrightarrow> type x \<in> {''long_method'', ''long_parameter_list''}"
  apply (simp only: long_methods_at_def mem_simps mem_case_prod)
  apply (elim disjE conjE exE)
  apply simp_all
  done

lemma long_parameter_lists_at_types:
  "x \<in> set (long_parameter_lists_at i line) \<Longrightarrow> type x = ''long_parameter_list''"
  apply (simp only: long_parameter_lists_at_def mem_simps mem_case_prod)
  apply (elim disjE conjE exE)
  apply simp_all
  done

lemma uncommented_at_types:
  "x \<in> set (uncommented_methods_at lines i line) \<Longrightarrow> type x = ''missing_documentation''"
  apply (simp only: uncommented_methods_at_def mem_simps mem_case_prod)
  apply (elim disjE conjE exE)
  apply simp_all
  done

text \<open>The nesting detector only ever appends \<open>complex_method\<close> issues.\<close>

lemma complex_step_types:
  assumes "\<forall>x \<in> set (snd acc). type x = ''complex_method''"
  shows "\<forall>x \<in> set (snd (complex_step lines acc numbered)). type x = ''complex_method''"
  using assms
  by (cases acc; cases numbered) (auto simp: complex_step_def Let_def)

lemma complex_foldl_types:
  "\<forall>x \<in> set (snd acc). type x = ''complex_method'' \<Longrightarrow>
   \<forall>x \<in> set (snd (foldl (complex_step lines) acc ns)). type x = ''complex_method''"
proof (induction ns arbitrary: acc)
  case Nil
  then show ?case by simp
next
  case (Cons a ns)
  from Cons.prems have "\<forall>x \<in> set (snd (complex_step lines acc a)). type x = ''complex_method''"
    by (rule complex_step_types)
  from Cons.IH [OF this] show ?case by simp
qed

lemma complex_types:
  "x \<in> set (find_complex_methods lines) \<Longrightarrow> type x = ''complex_method''"
  unfolding find_complex_methods_def
  using complex_foldl_types [of "(\<lparr>in_method = False, method_start = 0, max_nesting = 0, current_nesting = 0\<rparr>, [])" lines "enumerate 0 lines"] by simp


lemma detector_types:
  assumes "\<And>i l x. x \<in> set (F i l) \<Longrightarrow> type x \<in> S"
    and "x \<in> set (concat (map (\<lambda>(i, l). F i l) (enumerate n lines)))"
  shows "type x \<in> S"
proof -
  from assms(2) obtain i l where "x \<in> set (F i l)"
    by (auto simp: in_set_enumerate_eq)
  then show ?thesis by (rule assms(1))
qed

lemma long_methods_types:
  "x \<in> set (find_long_methods lines) \<Longrightarrow> type x \<in> {''long_method'', ''long_parameter_list''}"
  unfolding find_long_methods_def by (rule detector_types [OF long_methods_at_types])

lemma long_parameter_lists_types:
  "x \<in> set (find_long_parameter_lists lines) \<Longrightarrow> type x \<in> {''long_parameter_list''}"
  unfolding find_long_parameter_lists_def
  by (rule detector_types [where F = "\<lambda>i l. long_parameter_lists_at i l"])
     (simp add: long_parameter_lists_at_types)

lemma naming_types:
  "x \<in> set (find_naming_issues lines) \<Longrightarrow> type x \<in> {''naming_violation''}"
  unfolding find_naming_issues_def
  by (rule detector_types [where F = "\<lambda>i l. naming_issues_at i l"])
     (simp add: naming_at_types)

lemma uncommented_types:
  "x \<in> set (find_uncommented_methods lines) \<Longrightarrow> type x \<in> {''missing_documentation''}"
  unfolding find_uncommented_methods_def
  by (rule detector_types [where F = "\<lambda>i l. uncommented_methods_at lines i l"])
     (simp add: uncommented_at_types)

lemma sql_pattern_loop_eq:
  "sql_pattern_loop ps lines i s =
     (if list_ex (\<lambda>p. matches True p s) ps \<and> \<not> matches True re_prepared s
      then [\<lparr>type = ''sql_injection_risk'', severity = ''error'', line_number = int i + 1,
             line_content = s, code_snippet = map rstrip (drop (i - 2) (take (i + 3) lines))\<rparr>]
      else [])"
  by (induction ps) auto

lemma sql_types:
  "x \<in> set (find_sql_injection_risks lines) \<Longrightarrow> type x \<in> {''sql_injection_risk''}"
  unfolding find_sql_injection_risks_def
  by (rule detector_types [where F = "\<lambda>i l. sql_pattern_loop sql_patterns lines i (strip l)"])
     (simp add: sql_pattern_loop_eq split: if_splits)

lemma security_types:
  "x \<in> set (find_security_issues lines) \<Longrightarrow>
   type x \<in> {''xss_risk'', ''password_security'', ''hardcoded_credentials'',
               ''missing_error_handling''}"
  unfolding find_security_issues_def by (rule detector_types [OF security_at_types])

lemma code_quality_types:
  "x \<in> set (find_code_quality_issues lines) \<Longrightarrow>
   type x \<in> {''missing_class_comment'', ''public_property'', ''missing_type_declaration'',
               ''missing_access_modifier'', ''global_variable''}"
  unfolding find_code_quality_issues_def by (rule detector_types [OF code_quality_at_types])

lemma logic_types:
  "x \<in> set (find_logic_errors lines) \<Longrightarrow>
   type x \<in> {''infinite_loop_risk'', ''infinite_recursion_risk'', ''empty_catch_block'',
               ''memory_leak_risk'', ''division_by_zero_risk'', ''array_bounds_risk'',
               ''file_operation_risk''}"
  unfolding find_logic_errors_def by (rule detector_types [OF logic_at_types])

lemma performance_types:
  "x \<in> set (find_performance_issues lines) \<Longrightarrow>
   type x \<in> {''query_in_loop'', ''large_file_read_risk'', ''string_concat_in_loop'',
               ''regex_compile_in_loop'', ''redundant_function_call''}"
  unfolding find_performance_issues_def by (rule detector_types [OF performance_at_types])

text \<open>A filter that asks for a type a detector never emits leaves nothing of its list.\<close>

lemma filter_none: "(\<And>x. x \<in> set xs \<Longrightarrow> \<not> P x) \<Longrightarrow> filter P xs = []"
  by (simp add: filter_empty_conv)

lemma filter_other_type:
  assumes "\<And>x. x \<in> set xs \<Longrightarrow> type x \<in> S" and "t \<notin> S"
  shows "filter (\<lambda>x. type x = t \<and> Q x) xs = []"
proof (rule filter_none)
  fix x assume "x \<in> set xs"
  then have "type x \<in> S" by (rule assms(1))
  with assms(2) show "\<not> (type x = t \<and> Q x)" by auto
qed

text \<open>The same, detector by detector.\<close>

lemma long_methods_none:
  "t \<notin> {''long_method'', ''long_parameter_list''} \<Longrightarrow>
   filter (\<lambda>x. type x = t \<and> Q x) (find_long_methods lines) = []"
  by (rule filter_other_type [OF long_methods_types])

lemma complex_methods_none:
  "t \<notin> {''complex_method''} \<Longrightarrow>
   filter (\<lambda>x. type x = t \<and> Q x) (find_complex_methods lines) = []"
  by (rule filter_other_type [where S = "{''complex_method''}"]) (simp_all add: complex_types)

lemma long_parameter_lists_none:
  "t \<notin> {''long_parameter_list''} \<Longrightarrow>
   filter (\<lambda>x. type x = t \<and> Q x) (find_long_parameter_lists lines) = []"
  by (rule filter_other_type [OF long_parameter_lists_types])

lemma naming_none:
  "t \<notin> {''naming_violation''} \<Longrightarrow>
   filter (\<lambda>x. type x = t \<and> Q x) (find_naming_issues lines) = []"
  by (rule filter_other_type [OF naming_types])

lemma uncommented_none:
  "t \<notin> {''missing_documentation''} \<Longrightarrow>
   filter (\<lambda>x. type x = t \<and> Q x) (find_uncommented_methods lines) = []"
  by (rule filter_other_type [OF uncommented_types])

lemma sql_none:
  "t \<notin> {''sql_injection_risk''} \<Longrightarrow>
   filter (\<lambda>x. type x = t \<and> Q x) (find_sql_injection_risks lines) = []"
  by (rule filter_other_type [OF sql_types])

lemma security_none:
  "t \<notin> {''xss_risk'', ''password_security'', ''hardcoded_credentials'',
          ''missing_error_handling''} \<Longrightarrow>
   filter (\<lambda>x. type x = t \<and> Q x) (find_security_issues lines) = []"
  by (rule filter_other_type [OF security_types])

lemma code_quality_none:
  "t \<notin> {''missing_class_comment'', ''public_property'', ''missing_type_declaration'',
          ''missing_access_modifier'', ''global_variable''} \<Longrightarrow>
   filter (\<lambda>x. type x = t \<and> Q x) (find_code_quality_issues lines) = []"
  by (rule filter_other_type [OF code_quality_types])

lemma logic_none:
  "t \<notin> {''infinite_loop_risk'', ''infinite_recursion_risk'', ''empty_catch_block'',
          ''memory_leak_risk'', ''division_by_zero_risk'', ''array_bounds_risk'',
          ''file_operation_risk''} \<Longrightarrow>
   filter (\<lambda>x. type x = t \<and> Q x) (find_logic_errors lines) = []"
  by (rule filter_other_type [OF logic_types])

lemma performance_none:
  "t \<notin> {''query_in_loop'', ''large_file_read_risk'', ''string_concat_in_loop'',
          ''regex_compile_in_loop'', ''redundant_function_call''} \<Longrightarrow>
   filter (\<lambda>x. type x = t \<and> Q x) (find_performance_issues lines) = []"
  by (rule filter_other_type [OF performance_types])

lemmas none_of_type = long_methods_none complex_methods_none long_parameter_lists_none
  naming_none uncommented_none sql_none security_none code_quality_none logic_none
  performance_none

subsection \<open>Reading one line's issues off a detector's list\<close>

text \<open>
  A detector of the form \<open>for i, line in enumerate(lines)\<close> returns the concatenation of
  what its body appends per line. When a test \<open>P\<close> can only hold of issues appended for
  line \<open>i\<close>, the issues of the whole list that pass \<open>P\<close> are those of that line.
\<close>

lemma filter_concat_enumerate_outside:
  assumes "\<And>j l x. n \<le> j \<Longrightarrow> x \<in> set (F j l) \<Longrightarrow> \<not> P x"
  shows "filter P (concat (map (\<lambda>(j, l). F j l) (enumerate n lines))) = []"
  using assms
proof (induction lines arbitrary: n)
  case Nil
  then show ?case by simp
next
  case (Cons l lines)
  have "filter P (F n l) = []"
    using Cons.prems [of n _ l] by (simp add: filter_empty_conv)
  moreover have "filter P (concat (map (\<lambda>(j, l). F j l) (enumerate (Suc n) lines))) = []"
  proof (rule Cons.IH)
    fix j l x assume "Suc n \<le> j" "x \<in> set (F j l)"
    with Cons.prems [of j x l] show "\<not> P x" by simp
  qed
  ultimately show ?case by simp
qed

lemma filter_concat_enumerate_at:
  assumes "i < length lines"
    and "\<And>j l x. x \<in> set (F j l) \<Longrightarrow> P x \<Longrightarrow> j = n + i"
  shows "filter P (concat (map (\<lambda>(j, l). F j l) (enumerate n lines))) =
         filter P (F (n + i) (lines ! i))"
  using assms
proof (induction lines arbitrary: n i)
  case Nil
  then show ?case by simp
next
  case (Cons l lines)
  show ?case
  proof (cases i)
    case 0
    have "filter P (concat (map (\<lambda>(j, l). F j l) (enumerate (Suc n) lines))) = []"
    proof (rule filter_concat_enumerate_outside)
      fix j l x assume "Suc n \<le> j" "x \<in> set (F j l)"
      with Cons.prems(2) [of x j l] 0 show "\<not> P x" by auto
    qed
    with 0 show ?thesis by simp
  next
    case (Suc k)
    have here: "filter P (F n l) = []"
      using Cons.prems(2) [of _ n l] Suc by (auto simp: filter_empty_conv)
    have "filter P (concat (map (\<lambda>(j, l). F j l) (enumerate (Suc n) lines))) =
          filter P (F (Suc n + k) (lines ! k))"
    proof (rule Cons.IH)
      show "k < length lines" using Cons.prems(1) Suc by simp
      fix j l x assume "x \<in> set (F j l)" "P x"
      with Cons.prems(2) [of x j l] Suc show "j = Suc n + k" by simp
    qed
    with here Suc show ?thesis by simp
  qed
qed

subsection \<open>The SQL-injection detector\<close>






subsection \<open>The empty-catch test of the logic-error detector\<close>
















subsection \<open>The nesting detector\<close>

text \<open>One step of the loop, by the kind of line it meets.\<close>

lemma step_start:
  assumes "\<not> in_method st" "opens_method l" "\<not> has_control l" "\<not> closes_block l"
  shows "complex_step lines (st, acc) (i, l) =
         (\<lparr>in_method = True, method_start = i, max_nesting = 0, current_nesting = 0\<rparr>, acc)"
  using assms by (simp add: complex_step_def opens_method_def has_control_def closes_block_def)

















subsection \<open>The two parameter-count tests\<close>

text \<open>
  Two of the ten detectors emit \<open>long_parameter_list\<close>: \<open>_find_long_methods\<close>, for more
  than 4 parameters, and \<open>_find_long_parameter_lists\<close>, for more than 5.
\<close>

lemma scan_long_parameter_list:
  "filter (\<lambda>x. type x = ''long_parameter_list'') (detect_detailed_issues lines) =
   filter (\<lambda>x. type x = ''long_parameter_list'') (find_long_methods lines) @
   filter (\<lambda>x. type x = ''long_parameter_list'') (find_long_parameter_lists lines)"
proof -
  have "filter (\<lambda>x. type x = ''long_parameter_list'' \<and> Q x) (detect_detailed_issues lines) =
      filter (\<lambda>x. type x = ''long_parameter_list'' \<and> Q x) (find_long_methods lines) @
      filter (\<lambda>x. type x = ''long_parameter_list'' \<and> Q x) (find_long_parameter_lists lines)"
    for Q
    by (simp add: detect_detailed_issues_def none_of_type)
  from this [of "\<lambda>x. True"] show ?thesis by simp
qed

text \<open>
  Claim C2, on the failing inputs. The scan of a function declaration with exactly 5
  parameters holds one \<open>long_parameter_list\<close> issue (the claim says none), and the scan of
  one with exactly 6 parameters holds two, both at the declaration line (the claim says
  exactly one).
\<close>

theorem parameter_count_boundary:
  "map line_number (filter (\<lambda>x. type x = ''long_parameter_list'')
     (detect_detailed_issues five_parameters)) = [1] \<and>
   map line_number (filter (\<lambda>x. type x = ''long_parameter_list'')
     (detect_detailed_issues six_parameters)) = [1, 1]"
proof -
  have "map line_number (filter (\<lambda>x. type x = ''long_parameter_list'')
      (find_long_methods five_parameters)) = [1]"
    by code_simp
  moreover have "filter (\<lambda>x. type x = ''long_parameter_list'')
      (find_long_parameter_lists five_parameters) = []"
    by code_simp
  moreover have "map line_number (filter (\<lambda>x. type x = ''long_parameter_list'')
      (find_long_methods six_parameters)) = [1]"
    by code_simp
  moreover have "map line_number (filter (\<lambda>x. type x = ''long_parameter_list'')
      (find_long_parameter_lists six_parameters)) = [1]"
    by code_simp
  ultimately show ?thesis
    unfolding scan_long_parameter_list by simp
qed

subsection \<open>The naming detector\<close>

text \<open>Of the ten detectors only \<open>_find_naming_issues\<close> emits \<open>naming_violation\<close>.\<close>

lemma scan_naming:
  "filter (\<lambda>x. type x = ''naming_violation'') (detect_detailed_issues lines) =
   filter (\<lambda>x. type x = ''naming_violation'') (find_naming_issues lines)"
proof -
  have "filter (\<lambda>x. type x = ''naming_violation'' \<and> Q x) (detect_detailed_issues lines) =
      filter (\<lambda>x. type x = ''naming_violation'' \<and> Q x) (find_naming_issues lines)" for Q
    by (simp add: detect_detailed_issues_def none_of_type)
  from this [of "\<lambda>x. True"] show ?thesis by simp
qed

text \<open>
  Claim C9, on the failing input. The scan of a line that reads \<open>$_POST\<close> holds a
  \<open>naming_violation\<close> issue of severity \<open>info\<close>: the pattern captures the name with its
  underscore, \<open>_POST\<close>, and the list of excluded names holds \<open>POST\<close>.
\<close>

theorem superglobal_reported:
  "map (\<lambda>x. (severity x, line_number x))
     (filter (\<lambda>x. type x = ''naming_violation'')
        (detect_detailed_issues superglobal_line)) = [(''info'', 1)]"
proof -
  have "map (\<lambda>x. (severity x, line_number x))
     (filter (\<lambda>x. type x = ''naming_violation'')
        (find_naming_issues superglobal_line)) = [(''info'', 1)]"
    by code_simp
  then show ?thesis
    unfolding scan_naming .
qed

section \<open>Properties of the structural parser\<close>













end
